theory Spec2Isabelle
  imports Complex_Main "HOL-Library.AList"
begin

section \<open>Python values and strings\<close>

text \<open>
  A spreadsheet cell as pandas hands it to the code: a missing value (\<open>None\<close> or NaN),
  a number, a string, a boolean, or another non-null scalar such as a timestamp, which is
  carried with the text that \<open>str()\<close> gives for it. Python floats are read as real
  numbers; rounding is outside this model. Strings are byte strings, and
  \<open>lower\<close> folds the ASCII letters.
\<close>

datatype cell = Null | Num real | Str string | Bool bool | Stamp string

datatype py_error = KeyError | ValueError | TypeError

text \<open>
  The two conversions of the Python runtime that the code calls and that are not fixed by
  the repository: \<open>str(x)\<close> of a number, and \<open>float(s)\<close> of a string (\<open>None\<close> where
  Python raises \<open>ValueError\<close>).
\<close>

record pyrt =
  str_num :: "real \<Rightarrow> string"
  float_str :: "string \<Rightarrow> real option"

definition lower_char :: "char \<Rightarrow> char" where
  "lower_char c =
     (let n = (of_char c :: nat) in if 65 \<le> n \<and> n \<le> 90 then char_of (n + 32) else c)"

definition lower :: "string \<Rightarrow> string" where
  "lower s = map lower_char s"

fun starts_with :: "string \<Rightarrow> string \<Rightarrow> bool" where
  "starts_with [] s = True"
| "starts_with (p # ps) [] = False"
| "starts_with (p # ps) (c # cs) = (p = c \<and> starts_with ps cs)"

text \<open>\<open>contains sub s\<close> is Python's \<open>sub in s\<close> on strings.\<close>

fun contains :: "string \<Rightarrow> string \<Rightarrow> bool" where
  "contains sub [] = (sub = [])"
| "contains sub (c # cs) = (starts_with sub (c # cs) \<or> contains sub cs)"

text \<open>\<open>any(keyword in s for keyword in kws)\<close>.\<close>

definition any_in :: "string list \<Rightarrow> string \<Rightarrow> bool" where
  "any_in kws s = list_ex (\<lambda>keyword. contains keyword s) kws"

definition notna :: "cell \<Rightarrow> bool" where
  "notna v = (v \<noteq> Null)"

text \<open>\<open>pd.api.types.is_numeric_dtype(type(v))\<close>: true of ints, floats and bools.\<close>

fun is_numeric_value :: "cell \<Rightarrow> bool" where
  "is_numeric_value (Num r) = True"
| "is_numeric_value (Bool b) = True"
| "is_numeric_value v = False"

fun py_str :: "pyrt \<Rightarrow> cell \<Rightarrow> string" where
  "py_str rt Null = ''None''"
| "py_str rt (Num r) = str_num rt r"
| "py_str rt (Str s) = s"
| "py_str rt (Bool b) = (if b then ''True'' else ''False'')"
| "py_str rt (Stamp s) = s"

fun py_float :: "pyrt \<Rightarrow> cell \<Rightarrow> py_error + real" where
  "py_float rt Null = Inl TypeError"
| "py_float rt (Num r) = Inr r"
| "py_float rt (Str s) = (case float_str rt s of None \<Rightarrow> Inl ValueError | Some r \<Rightarrow> Inr r)"
| "py_float rt (Bool b) = Inr (if b then 1 else 0)"
| "py_float rt (Stamp s) = Inl TypeError"

text \<open>\<open>float(v)\<close> where the code has already checked that \<open>v\<close> is numeric.\<close>

fun float_of_numeric :: "cell \<Rightarrow> real" where
  "float_of_numeric (Num r) = r"
| "float_of_numeric (Bool b) = (if b then 1 else 0)"
| "float_of_numeric v = 0"

text \<open>Truthiness of an optional string and of an optional integer.\<close>

fun truthy_str :: "string option \<Rightarrow> bool" where
  "truthy_str None = False"
| "truthy_str (Some s) = (s \<noteq> [])"

fun truthy_int :: "int option \<Rightarrow> bool" where
  "truthy_int None = False"
| "truthy_int (Some n) = (n \<noteq> 0)"

section \<open>Tables and column mappings\<close>

text \<open>
  A DataFrame: the ordered column names, the dtype class pandas reports for each column,
  and the rows in \<open>iterrows\<close> order, a row giving the cell under each column name.
  A name may stand in \<open>columns\<close> more than once; under such a name a row has no single
  cell (see \<open>repeated\<close> below), and what the row function gives there is never used.
\<close>

datatype dtype = NumericT | DatetimeT | StringT | ObjectT

record dataframe =
  columns :: "string list"
  dtypes :: "string \<Rightarrow> dtype"
  rows :: "(string \<Rightarrow> cell) list"

text \<open>The dictionary the classifier keeps for one column.\<close>

record col_mapping =
  category :: string
  confidence :: real
  scope :: "int option"
  unit :: "string option"

type_synonym column_mappings = "(string \<times> col_mapping) list"

section \<open>The row mapper\<close>

text \<open>One entry of a scope list of \<open>structured_data\<close>; \<open>data\<close> is an insertion-ordered
  dictionary.\<close>

record item =
  item_type :: string
  data :: "(string \<times> cell) list"
  original_row :: "(string \<times> cell) list"

record structured_data =
  scope1 :: "item list"
  scope2 :: "item list"
  scope3 :: "item list"

definition columns_of_category :: "dataframe \<Rightarrow> column_mappings \<Rightarrow> string \<Rightarrow> string list" where
  "columns_of_category df column_mappings cat =
     map fst (filter (\<lambda>(col, mapping). category mapping = cat \<and> col \<in> set (columns df))
        column_mappings)"

fun opt_cell :: "string option \<Rightarrow> cell" where
  "opt_cell None = Null"
| "opt_cell (Some s) = Str s"

text \<open>Lines 564-569: the first non-null category cell, as lowercased text.\<close>

fun extract_category :: "pyrt \<Rightarrow> (string \<Rightarrow> cell) \<Rightarrow> string list \<Rightarrow> string option" where
  "extract_category rt row [] = None"
| "extract_category rt row (col # cols) =
     (if notna (row col) then Some (lower (py_str rt (row col)))
      else extract_category rt row cols)"

text \<open>Lines 571-576: the first amount cell that is non-null and of a numeric type.\<close>

fun extract_amount :: "(string \<Rightarrow> cell) \<Rightarrow> string list \<Rightarrow> real option" where
  "extract_amount row [] = None"
| "extract_amount row (col # cols) =
     (if notna (row col) \<and> is_numeric_value (row col) then Some (float_of_numeric (row col))
      else extract_amount row cols)"

text \<open>
  The same loop in the copy of the mapper that the import page carries
  (\<open>pages/1_Data_Input_streamlit.py\<close>, lines 449-456): the first non-null amount cell
  that \<open>float()\<close> converts; a cell on which \<open>float()\<close> raises is passed over.
\<close>

fun page_extract_amount :: "pyrt \<Rightarrow> (string \<Rightarrow> cell) \<Rightarrow> string list \<Rightarrow> real option" where
  "page_extract_amount rt row [] = None"
| "page_extract_amount rt row (col # cols) =
     (if notna (row col) then
        (case py_float rt (row col) of
           Inr amount \<Rightarrow> Some amount
         | Inl e \<Rightarrow> page_extract_amount rt row cols)
      else page_extract_amount rt row cols)"

text \<open>Lines 578-583: the first non-null unit cell, as text.\<close>

fun extract_unit :: "pyrt \<Rightarrow> (string \<Rightarrow> cell) \<Rightarrow> string list \<Rightarrow> string option" where
  "extract_unit rt row [] = None"
| "extract_unit rt row (col # cols) =
     (if notna (row col) then Some (py_str rt (row col)) else extract_unit rt row cols)"

definition emission_kinds :: "string list" where
  "emission_kinds = [''fuel'', ''refrigerant'', ''electricity'', ''transport'', ''waste'', ''water'']"

text \<open>
  Lines 585-596: the loop over the mappings that sets \<open>emission_type\<close> and \<open>scope\<close> from
  a kind column with a non-null cell, and stops once both are truthy.
\<close>

fun type_from_columns ::
  "dataframe \<Rightarrow> (string \<Rightarrow> cell) \<Rightarrow> column_mappings \<Rightarrow> string option \<times> int option
     \<Rightarrow> string option \<times> int option" where
  "type_from_columns df row [] st = st"
| "type_from_columns df row ((col, mapping) # rest) st =
     (if col \<in> set (columns df)
         \<and> category mapping \<notin> set [''amount'', ''unit'', ''date'', ''notes'', ''unknown'']
         \<and> notna (row col) \<and> category mapping \<in> set emission_kinds
      then (if truthy_str (Some (category mapping)) \<and> truthy_int (scope mapping)
            then (Some (category mapping), scope mapping)
            else type_from_columns df row rest (Some (category mapping), scope mapping))
      else type_from_columns df row rest st)"

text \<open>Lines 598-617: the kind and its scope from keywords of the category text.\<close>

definition type_from_category :: "string \<Rightarrow> (string \<times> int) option" where
  "type_from_category category_value =
     (if any_in [''fuel'', ''diesel'', ''gasoline'', ''petrol''] category_value
        then Some (''fuel'', 1)
      else if any_in [''refrigerant'', ''coolant'', ''r-''] category_value
        then Some (''refrigerant'', 1)
      else if any_in [''electric'', ''power'', ''energy''] category_value
        then Some (''electricity'', 2)
      else if any_in [''transport'', ''travel'', ''vehicle'', ''flight''] category_value
        then Some (''transport'', 3)
      else if any_in [''waste'', ''landfill'', ''recycl''] category_value
        then Some (''waste'', 3)
      else if any_in [''water''] category_value
        then Some (''water'', 3)
      else None)"

text \<open>Lines 619-626: the first mapping that declares a scope and whose cell is non-null.\<close>

fun scope_from_columns ::
  "dataframe \<Rightarrow> (string \<Rightarrow> cell) \<Rightarrow> column_mappings \<Rightarrow> int option \<Rightarrow> int option" where
  "scope_from_columns df row [] sc = sc"
| "scope_from_columns df row ((col, mapping) # rest) sc =
     (if col \<in> set (columns df) \<and> scope mapping \<noteq> None \<and> notna (row col)
      then scope mapping
      else scope_from_columns df row rest sc)"

text \<open>Lines 628-635: the scope named in the category text, read only when no scope is set.\<close>

definition scope_from_category :: "string option \<Rightarrow> int option \<Rightarrow> int option" where
  "scope_from_category category_value sc =
     (case category_value of
        None \<Rightarrow> sc
      | Some cv \<Rightarrow>
          if truthy_str (Some cv) \<and> \<not> truthy_int sc then
            (if contains ''scope 1'' cv then Some 1
             else if contains ''scope 2'' cv then Some 2
             else if contains ''scope 3'' cv then Some 3
             else sc)
          else sc)"

text \<open>Lines 650-655: every mapped, non-null cell is stored under its role.\<close>

fun collect_data ::
  "dataframe \<Rightarrow> (string \<Rightarrow> cell) \<Rightarrow> column_mappings \<Rightarrow> (string \<times> cell) list
     \<Rightarrow> (string \<times> cell) list" where
  "collect_data df row [] d = d"
| "collect_data df row ((col, mapping) # rest) d =
     (if col \<in> set (columns df) \<and> category mapping \<notin> set [''unknown'', ''ignore'']
         \<and> notna (row col)
      then collect_data df row rest (AList.update (category mapping) (row col) d)
      else collect_data df row rest d)"

definition to_dict :: "dataframe \<Rightarrow> (string \<Rightarrow> cell) \<Rightarrow> (string \<times> cell) list" where
  "to_dict df row = map (\<lambda>col. (col, row col)) (columns df)"

text \<open>The values of \<open>emission_type\<close> and \<open>scope\<close> after lines 585-617: from a kind
  column, or else from the keywords of the category text.\<close>

definition kind_and_scope ::
  "dataframe \<Rightarrow> column_mappings \<Rightarrow> (string \<Rightarrow> cell) \<Rightarrow> string option
     \<Rightarrow> string option \<times> int option" where
  "kind_and_scope df column_mappings row category_value =
     (let (emission_type, sc) = type_from_columns df row column_mappings (None, None)
      in if \<not> truthy_str emission_type \<and> truthy_str category_value
         then (case type_from_category (the category_value) of
                 None \<Rightarrow> (emission_type, sc)
               | Some (t, s) \<Rightarrow> (Some t, Some s))
         else (emission_type, sc))"

text \<open>The values of \<open>emission_type\<close> and \<open>scope\<close> after lines 585-635.\<close>

definition resolve_type_scope ::
  "pyrt \<Rightarrow> dataframe \<Rightarrow> column_mappings \<Rightarrow> (string \<Rightarrow> cell) \<Rightarrow> string option \<times> int option" where
  "resolve_type_scope rt df column_mappings row =
     (let category_value =
            extract_category rt row (columns_of_category df column_mappings ''category'');
          (emission_type, sc) = kind_and_scope df column_mappings row category_value;
          sc = scope_from_columns df row column_mappings sc;
          sc = scope_from_category category_value sc
      in (emission_type, sc))"

text \<open>Lines 642-662: the entry that is appended for a row.\<close>

definition make_item ::
  "dataframe \<Rightarrow> column_mappings \<Rightarrow> (string \<Rightarrow> cell) \<Rightarrow> string \<Rightarrow> real \<Rightarrow> string option
     \<Rightarrow> string option \<Rightarrow> item" where
  "make_item df column_mappings row emission_type amount unit_value category_value =
     \<lparr> item_type = emission_type,
       data = collect_data df row column_mappings
         (AList.update emission_type (Bool True)
            [(''amount'', Num amount), (''unit'', opt_cell unit_value),
             (''category'', opt_cell category_value)]),
       original_row = to_dict df row \<rparr>"

text \<open>
  Under a column name that the table carries more than once, \<open>row[col]\<close> is a Series
  and not a cell, and the truth test of \<open>pd.notna\<close> on it raises \<open>ValueError\<close>.
\<close>

definition repeated :: "dataframe \<Rightarrow> string \<Rightarrow> bool" where
  "repeated df col = (1 < count_list (columns df) col)"

text \<open>Whether the loop of lines 564-569, or of lines 578-583, tests a repeated column
  before it stops at a non-null cell.\<close>

fun cells_raise :: "dataframe \<Rightarrow> (string \<Rightarrow> cell) \<Rightarrow> string list \<Rightarrow> bool" where
  "cells_raise df row [] = False"
| "cells_raise df row (col # cols) =
     (repeated df col \<or> (\<not> notna (row col) \<and> cells_raise df row cols))"

text \<open>The same for the amount loop of lines 571-576, which stops at a number.\<close>

fun amount_cells_raise :: "dataframe \<Rightarrow> (string \<Rightarrow> cell) \<Rightarrow> string list \<Rightarrow> bool" where
  "amount_cells_raise df row [] = False"
| "amount_cells_raise df row (col # cols) =
     (repeated df col
      \<or> (\<not> (notna (row col) \<and> is_numeric_value (row col)) \<and> amount_cells_raise df row cols))"

text \<open>The same for the loop of lines 585-596, which stops once kind and scope are truthy.\<close>

fun type_cells_raise :: "dataframe \<Rightarrow> (string \<Rightarrow> cell) \<Rightarrow> column_mappings \<Rightarrow> bool" where
  "type_cells_raise df row [] = False"
| "type_cells_raise df row ((col, mapping) # rest) =
     (if col \<in> set (columns df)
         \<and> category mapping \<notin> set [''amount'', ''unit'', ''date'', ''notes'', ''unknown'']
      then repeated df col
           \<or> (\<not> (notna (row col) \<and> category mapping \<in> set emission_kinds
                  \<and> truthy_str (Some (category mapping)) \<and> truthy_int (scope mapping))
               \<and> type_cells_raise df row rest)
      else type_cells_raise df row rest)"

text \<open>The same for the loop of lines 619-626, which stops at the first non-null cell of a
  column that declares a scope.\<close>

fun scope_cells_raise :: "dataframe \<Rightarrow> (string \<Rightarrow> cell) \<Rightarrow> column_mappings \<Rightarrow> bool" where
  "scope_cells_raise df row [] = False"
| "scope_cells_raise df row ((col, mapping) # rest) =
     (if col \<in> set (columns df) \<and> scope mapping \<noteq> None
      then repeated df col \<or> (\<not> notna (row col) \<and> scope_cells_raise df row rest)
      else scope_cells_raise df row rest)"

text \<open>The loop of lines 650-655 tests every mapped column that is not unknown or ignored.\<close>

fun collect_raises :: "dataframe \<Rightarrow> column_mappings \<Rightarrow> bool" where
  "collect_raises df [] = False"
| "collect_raises df ((col, mapping) # rest) =
     ((col \<in> set (columns df) \<and> category mapping \<notin> set [''unknown'', ''ignore'']
        \<and> repeated df col)
      \<or> collect_raises df rest)"

text \<open>Whether lines 564-626 raise on a row.\<close>

definition row_raises :: "dataframe \<Rightarrow> column_mappings \<Rightarrow> (string \<Rightarrow> cell) \<Rightarrow> bool" where
  "row_raises df column_mappings row =
     (cells_raise df row (columns_of_category df column_mappings ''category'')
      \<or> amount_cells_raise df row (columns_of_category df column_mappings ''amount'')
      \<or> cells_raise df row (columns_of_category df column_mappings ''unit'')
      \<or> type_cells_raise df row column_mappings
      \<or> scope_cells_raise df row column_mappings)"

text \<open>
  The body of the row loop (lines 557-662): \<open>Inr None\<close> when the row adds nothing,
  \<open>Inr (Some (n, it))\<close> when \<open>it\<close> is appended to the list \<open>scope<n>\<close>,
  \<open>Inl ValueError\<close> when a repeated column is tested, and
  \<open>Inl KeyError\<close> when \<open>structured_data\<close> has no key \<open>scope<n>\<close>.
\<close>

definition map_row ::
  "pyrt \<Rightarrow> dataframe \<Rightarrow> column_mappings \<Rightarrow> (string \<Rightarrow> cell) \<Rightarrow> py_error + (int \<times> item) option" where
  "map_row rt df column_mappings row =
     (if row_raises df column_mappings row then Inl ValueError
      else
        (let category_value =
               extract_category rt row (columns_of_category df column_mappings ''category'');
             amount = extract_amount row (columns_of_category df column_mappings ''amount'');
             unit_value = extract_unit rt row (columns_of_category df column_mappings ''unit'');
             (emission_type, sc) = resolve_type_scope rt df column_mappings row
         in if amount \<noteq> None \<and> truthy_str emission_type \<and> truthy_int sc then
              (if collect_raises df column_mappings then Inl ValueError
               else if the sc \<in> {1, 2, 3} then
                 Inr (Some (the sc,
                   make_item df column_mappings row (the emission_type) (the amount) unit_value
                     category_value))
               else Inl KeyError)
            else Inr None))"

definition append_item :: "int \<Rightarrow> item \<Rightarrow> structured_data \<Rightarrow> structured_data" where
  "append_item n it sd =
     (if n = 1 then sd\<lparr>scope1 := scope1 sd @ [it]\<rparr>
      else if n = 2 then sd\<lparr>scope2 := scope2 sd @ [it]\<rparr>
      else sd\<lparr>scope3 := scope3 sd @ [it]\<rparr>)"

fun map_rows ::
  "pyrt \<Rightarrow> dataframe \<Rightarrow> column_mappings \<Rightarrow> (string \<Rightarrow> cell) list \<Rightarrow> structured_data
     \<Rightarrow> py_error + structured_data" where
  "map_rows rt df column_mappings [] sd = Inr sd"
| "map_rows rt df column_mappings (row # rest) sd =
     (case map_row rt df column_mappings row of
        Inl e \<Rightarrow> Inl e
      | Inr None \<Rightarrow> map_rows rt df column_mappings rest sd
      | Inr (Some (n, it)) \<Rightarrow> map_rows rt df column_mappings rest (append_item n it sd))"

definition map_to_emission_categories ::
  "pyrt \<Rightarrow> dataframe \<Rightarrow> column_mappings \<Rightarrow> py_error + structured_data" where
  "map_to_emission_categories rt df column_mappings =
     map_rows rt df column_mappings (rows df) \<lparr>scope1 = [], scope2 = [], scope3 = []\<rparr>"

section \<open>The factor catalog\<close>

type_synonym factors = "(string \<times> (string \<times> real) list) list"

text \<open>\<open>default_factors\<close> of \<open>load_emission_factors\<close>, in the order the source writes them.\<close>

definition default_factors :: factors where
  "default_factors =
     [(''fuel'',
        [(''Petrol/Gasoline'', 2.31), (''Diesel'', 2.68), (''LPG/Propane'', 1.51),
         (''Natural Gas'', 2.02), (''Biodiesel'', 1.79), (''E85 (Ethanol)'', 1.56)]),
      (''electricity'',
        [(''UK'', 0.19), (''EU Average'', 0.23), (''US Average'', 0.38), (''China'', 0.55),
         (''India'', 0.71), (''Global Average'', 0.48)]),
      (''transport'',
        [(''Car (Petrol/Gasoline)'', 0.19), (''Car (Diesel)'', 0.17), (''Car (Hybrid)'', 0.11),
         (''Car (Electric)'', 0.05), (''Bus'', 0.10), (''Train'', 0.04),
         (''Flight (Short-haul)'', 0.16), (''Flight (Medium-haul)'', 0.14),
         (''Flight (Long-haul)'', 0.15)]),
      (''waste'',
        [(''Landfill (Mixed)'', 0.45), (''Recycled Paper'', 0.02), (''Recycled Plastic'', 0.04),
         (''Recycled Glass'', 0.01), (''Recycled Metal'', 0.02), (''Composted'', 0.01),
         (''Incineration'', 0.22)]),
      (''water'',
        [(''Supply'', 0.34), (''Treatment'', 0.71), (''Recycled'', 0.05)]),
      (''refrigerant'',
        [(''R-410A'', 2088), (''R-22'', 1810), (''R-134a'', 1430), (''R-404A'', 3922),
         (''R-407C'', 1774), (''R-32'', 675)])]"

text \<open>
  \<open>load_emission_factors\<close> returns the default table on every path, whatever file is
  named (reading the file is not implemented in the source).
\<close>

definition load_emission_factors :: "string option \<Rightarrow> factors" where
  "load_emission_factors file_path = default_factors"

section \<open>The emissions calculator\<close>

record scope_result =
  scope_total :: real
  categories :: "(string \<times> real) list"

record line_item =
  line_scope :: string
  line_type :: string
  line_data :: "(string \<times> cell) list"
  emissions :: real
  line_original_row :: "(string \<times> cell) list"

record results =
  res_scope1 :: scope_result
  res_scope2 :: scope_result
  res_scope3 :: scope_result
  total :: real
  line_items :: "line_item list"

text \<open>
  The subtype loop of each branch: the first value of \<open>data\<close>, in dictionary order, that
  is a string and whose lowercase form contains one of the keywords.
\<close>

fun find_type :: "string list \<Rightarrow> (string \<times> cell) list \<Rightarrow> string option" where
  "find_type kws [] = None"
| "find_type kws ((key, Str v) # rest) =
     (if any_in kws (lower v) then Some v else find_type kws rest)"
| "find_type kws ((key, v) # rest) = find_type kws rest"

text \<open>
  The factor loop of each branch: the first catalog entry whose lowercase name contains
  the lowercase subtype.
\<close>

fun find_factor :: "string \<Rightarrow> (string \<times> real) list \<Rightarrow> real option" where
  "find_factor t [] = None"
| "find_factor t ((factor_name, factor_value) # rest) =
     (if contains (lower t) (lower factor_name) then Some factor_value else find_factor t rest)"

text \<open>
  The factor a branch uses for the subtype found in \<open>data\<close>: the default name stands in
  when no value matched, and the default entry (or the literal written in the source) when
  no catalog name contains the subtype.
\<close>

definition branch_factor ::
  "(string \<times> real) list \<Rightarrow> string list \<Rightarrow> string \<Rightarrow> real \<Rightarrow> (string \<times> cell) list \<Rightarrow> real" where
  "branch_factor table kws default_name default_value d =
     (let t = (case find_type kws d of
                 None \<Rightarrow> default_name
               | Some v \<Rightarrow> if v = [] then default_name else v)
      in case find_factor t table of
           Some ef \<Rightarrow> ef
         | None \<Rightarrow> (case map_of table default_name of Some ef \<Rightarrow> ef | None \<Rightarrow> default_value))"

text \<open>
  One branch of lines 698-876: \<open>float(data.get('amount', 0))\<close>, the factor, and the
  product, divided by \<open>divisor\<close> (1000 for refrigerants, 1 otherwise).
\<close>

definition branch_emissions ::
  "pyrt \<Rightarrow> factors \<Rightarrow> string \<Rightarrow> string list \<Rightarrow> string \<Rightarrow> real \<Rightarrow> real
     \<Rightarrow> (string \<times> cell) list \<Rightarrow> py_error + real" where
  "branch_emissions rt emission_factors kind kws default_name default_value divisor d =
     (case py_float rt (case map_of d ''amount'' of None \<Rightarrow> Num 0 | Some v \<Rightarrow> v) of
        Inl e \<Rightarrow> Inl e
      | Inr amount \<Rightarrow>
          (case map_of emission_factors kind of
             None \<Rightarrow> Inl KeyError
           | Some table \<Rightarrow>
               Inr (amount * branch_factor table kws default_name default_value d / divisor)))"

definition item_emissions :: "pyrt \<Rightarrow> factors \<Rightarrow> item \<Rightarrow> py_error + real" where
  "item_emissions rt emission_factors it =
     (let emission_type = item_type it; d = data it in
      if emission_type = ''fuel'' \<and> map_of d ''amount'' \<noteq> None then
        branch_emissions rt emission_factors ''fuel''
          [''diesel'', ''gasoline'', ''petrol'', ''natural gas'', ''lpg''] ''Diesel'' 2.68 1 d
      else if emission_type = ''electricity'' \<and> map_of d ''amount'' \<noteq> None then
        branch_emissions rt emission_factors ''electricity''
          [''uk'', ''us'', ''eu'', ''china'', ''india''] ''Global Average'' 0.48 1 d
      else if emission_type = ''transport'' \<and> map_of d ''amount'' \<noteq> None then
        branch_emissions rt emission_factors ''transport''
          [''car'', ''bus'', ''train'', ''flight'', ''plane''] ''Car (Petrol/Gasoline)'' 0.19 1 d
      else if emission_type = ''waste'' \<and> map_of d ''amount'' \<noteq> None then
        branch_emissions rt emission_factors ''waste''
          [''landfill'', ''recycled'', ''composted'', ''incineration''] ''Landfill (Mixed)'' 0.45 1 d
      else if emission_type = ''water'' \<and> map_of d ''amount'' \<noteq> None then
        branch_emissions rt emission_factors ''water''
          [''supply'', ''treatment'', ''recycled''] ''Supply'' 0.34 1 d
      else if emission_type = ''refrigerant'' \<and> map_of d ''amount'' \<noteq> None then
        branch_emissions rt emission_factors ''refrigerant''
          [''r-'', ''hfc'', ''refrigerant''] ''R-410A'' 2088 1000 d
      else Inr 0)"

text \<open>Lines 878-883 on one scope entry of \<open>results\<close>.\<close>

definition add_to_scope :: "string \<Rightarrow> real \<Rightarrow> scope_result \<Rightarrow> scope_result" where
  "add_to_scope emission_type e sr =
     \<lparr> scope_total = scope_total sr + e,
       categories =
         AList.update emission_type
           ((case map_of (categories sr) emission_type of None \<Rightarrow> 0 | Some v \<Rightarrow> v) + e)
           (categories sr) \<rparr>"

definition get_scope :: "string \<Rightarrow> results \<Rightarrow> scope_result" where
  "get_scope key res =
     (if key = ''scope1'' then res_scope1 res
      else if key = ''scope2'' then res_scope2 res
      else res_scope3 res)"

definition set_scope :: "string \<Rightarrow> scope_result \<Rightarrow> results \<Rightarrow> results" where
  "set_scope key sr res =
     (if key = ''scope1'' then res\<lparr>res_scope1 := sr\<rparr>
      else if key = ''scope2'' then res\<lparr>res_scope2 := sr\<rparr>
      else res\<lparr>res_scope3 := sr\<rparr>)"

text \<open>Lines 878-894: the totals are raised and the line item is appended.\<close>

definition record_item :: "string \<Rightarrow> item \<Rightarrow> real \<Rightarrow> results \<Rightarrow> results" where
  "record_item key it e res =
     (set_scope key (add_to_scope (item_type it) e (get_scope key res)) res)
       \<lparr> total := total res + e,
         line_items := line_items res @
           [\<lparr> line_scope = key, line_type = item_type it, line_data = data it,
              emissions = e, line_original_row = original_row it \<rparr>] \<rparr>"

fun process_items ::
  "pyrt \<Rightarrow> factors \<Rightarrow> string \<Rightarrow> item list \<Rightarrow> results \<Rightarrow> py_error + results" where
  "process_items rt emission_factors key [] res = Inr res"
| "process_items rt emission_factors key (it # rest) res =
     (case item_emissions rt emission_factors it of
        Inl e \<Rightarrow> Inl e
      | Inr e \<Rightarrow> process_items rt emission_factors key rest (record_item key it e res))"

definition empty_results :: results where
  "empty_results =
     \<lparr> res_scope1 = \<lparr>scope_total = 0, categories = []\<rparr>,
       res_scope2 = \<lparr>scope_total = 0, categories = []\<rparr>,
       res_scope3 = \<lparr>scope_total = 0, categories = []\<rparr>,
       total = 0, line_items = [] \<rparr>"

definition calculate_emissions ::
  "pyrt \<Rightarrow> structured_data \<Rightarrow> factors option \<Rightarrow> py_error + results" where
  "calculate_emissions rt sd emission_factors =
     (let ef = (case emission_factors of None \<Rightarrow> load_emission_factors None | Some f \<Rightarrow> f) in
      case process_items rt ef ''scope1'' (scope1 sd) empty_results of
        Inl e \<Rightarrow> Inl e
      | Inr r1 \<Rightarrow>
          (case process_items rt ef ''scope2'' (scope2 sd) r1 of
             Inl e \<Rightarrow> Inl e
           | Inr r2 \<Rightarrow> process_items rt ef ''scope3'' (scope3 sd) r2))"

section \<open>The column classifier\<close>

text \<open>A column \<open>df[column]\<close>: its name, its dtype class and its cells in row order.\<close>

record series =
  name :: string
  dtype_of :: dtype
  cells :: "cell list"

definition get_column :: "dataframe \<Rightarrow> string \<Rightarrow> series" where
  "get_column df column =
     \<lparr> name = column, dtype_of = dtypes df column, cells = map (\<lambda>row. row column) (rows df) \<rparr>"

text \<open>\<open>column.empty or column.isna().all()\<close>.\<close>

definition empty_or_all_na :: "series \<Rightarrow> bool" where
  "empty_or_all_na column = (cells column = [] \<or> list_all (\<lambda>v. \<not> notna v) (cells column))"

definition get_scope_for_category :: "string \<Rightarrow> int option" where
  "get_scope_for_category cat =
     map_of [(''fuel'', 1), (''refrigerant'', 1), (''electricity'', 2), (''transport'', 3),
             (''waste'', 3), (''water'', 3)] cat"

text \<open>
  The name patterns of \<open>detect_column_types\<close>, in dictionary order. Every pattern is an
  alternation of literals, searched in the lowercased name, so a pattern matches when one
  of its literals occurs; \<open>r-\d+\<close> occurs exactly when \<open>r-\<close> followed by a digit does.
\<close>

definition patterns :: "(string \<times> string list) list" where
  "patterns =
     [(''fuel'', [''fuel'', ''diesel'', ''gasoline'', ''petrol'', ''gas'', ''oil'', ''litre'',
        ''liter'', ''gallon'', ''combustion'', ''fleet'', ''vehicle fuel'', ''natural gas'',
        ''lpg'', ''propane'', ''biodiesel'']),
      (''electricity'', [''electric'', ''energy'', ''kwh'', ''mwh'', ''power'', ''consumption'',
        ''generation'', ''grid'', ''renewable'', ''solar'', ''wind'', ''hydroelectric'']),
      (''transport'', [''travel'', ''transport'', ''vehicle'', ''flight'', ''distance'', ''km'',
        ''mile'', ''commute'', ''business travel'', ''train'', ''bus'', ''taxi'', ''airplane'',
        ''ship'', ''ferry'', ''logistics'']),
      (''waste'', [''waste'', ''landfill'', ''recycl'', ''compost'', ''garbage'', ''trash'',
        ''disposal'', ''incineration'', ''hazardous'', ''scrap'', ''sewage'']),
      (''water'', [''water'', ''m3'', ''cubic'', ''consumption'', ''treatment'', ''wastewater'',
        ''effluent'', ''discharge'', ''irrigation'', ''potable'']),
      (''refrigerant'', [''refrigerant'', ''coolant'', ''air condition'', ''hfc'',
        ''r-0'', ''r-1'', ''r-2'', ''r-3'', ''r-4'', ''r-5'', ''r-6'', ''r-7'', ''r-8'', ''r-9'',
        ''leak'', ''fugitive'', ''cooling'', ''hvac'', ''chiller'']),
      (''amount'', [''amount'', ''quantity'', ''volume'', ''weight'', ''total'', ''consumption'',
        ''usage'', ''value'', ''count'', ''number'', ''sum'']),
      (''unit'', [''unit'', ''measure'', ''uom'', ''metric'', ''kwh'', ''kg'', ''ton'', ''liter'',
        ''gallon'', ''km'', ''mile'', ''m3'']),
      (''date'', [''date'', ''time'', ''period'', ''month'', ''year'', ''quarter'', ''week'',
        ''day'', ''fiscal'', ''calendar'', ''report'']),
      (''category'', [''category'', ''type'', ''class'', ''scope'', ''classification'', ''group'',
        ''source'', ''activity'']),
      (''location'', [''location'', ''site'', ''facility'', ''building'', ''office'', ''plant'',
        ''region'', ''country'', ''city'', ''address'', ''geography'']),
      (''notes'', [''note'', ''comment'', ''description'', ''detail'', ''additional'', ''info'',
        ''remark''])]"

text \<open>The first pattern, in order, that is found in the lowercased column name.\<close>

fun match_patterns :: "(string \<times> string list) list \<Rightarrow> string \<Rightarrow> string option" where
  "match_patterns [] col_str = None"
| "match_patterns ((cat, pattern) # rest) col_str =
     (if any_in pattern col_str then Some cat else match_patterns rest col_str)"

text \<open>The unit name of the cubic metre: the letter m and the UTF-8 bytes of the superscript
  three.\<close>

definition m_cubed :: string where
  "m_cubed = [CHR ''m'', CHR 0xC2, CHR 0xB3]"

text \<open>The branch of \<open>detect_unit\<close> for numeric columns: the unit is read off the name.\<close>

definition unit_from_name :: "string \<Rightarrow> string option" where
  "unit_from_name col_str =
     (if any_in [''kwh'', ''kw-h'', ''kilowatt''] col_str then Some ''kWh''
      else if any_in [''mwh'', ''mw-h'', ''megawatt''] col_str then Some ''MWh''
      else if any_in [''kg'', ''kilo'', ''weight''] col_str then Some ''kg''
      else if any_in [''ton'', ''tonne''] col_str then Some ''tonnes''
      else if any_in [''l'', ''liter'', ''litre''] col_str then Some ''litres''
      else if any_in [''gal'', ''gallon''] col_str then Some ''gallons''
      else if any_in [''km'', ''kilometer''] col_str then Some ''km''
      else if any_in [''mi'', ''mile''] col_str then Some ''miles''
      else if any_in [''m3'', ''cubic''] col_str then Some m_cubed
      else None)"

text \<open>
  The branch of \<open>detect_unit\<close> for string columns: the table of unit words in dictionary
  order.
\<close>

definition value_units :: "(string \<times> string) list" where
  "value_units =
     [(''kwh'', ''kWh''), (''kilowatt'', ''kWh''), (''mwh'', ''MWh''), (''megawatt'', ''MWh''),
      (''kg'', ''kg''), (''kilo'', ''kg''), (''ton'', ''tonnes''), (''tonne'', ''tonnes''),
      (''liter'', ''litres''), (''litre'', ''litres''), (''gallon'', ''gallons''), (''km'', ''km''),
      (''kilometer'', ''km''), (''mile'', ''miles''), (''m3'', m_cubed), (''cubic meter'', m_cubed)]"

fun unit_in_value :: "(string \<times> string) list \<Rightarrow> string \<Rightarrow> string option" where
  "unit_in_value [] v = None"
| "unit_in_value ((unit_str, unit_value) # rest) v =
     (if contains unit_str v then Some unit_value else unit_in_value rest v)"

fun unit_from_values :: "string list \<Rightarrow> string option" where
  "unit_from_values [] = None"
| "unit_from_values (v # vs) =
     (case unit_in_value value_units v of Some u \<Rightarrow> Some u | None \<Rightarrow> unit_from_values vs)"

text \<open>\<open>column.dropna().astype(str).str.lower()\<close> as a list.\<close>

definition lower_strings :: "pyrt \<Rightarrow> series \<Rightarrow> string list" where
  "lower_strings rt column = map (\<lambda>v. lower (py_str rt v)) (filter notna (cells column))"

definition detect_unit :: "pyrt \<Rightarrow> series \<Rightarrow> string option" where
  "detect_unit rt column =
     (if empty_or_all_na column then None
      else if dtype_of column = NumericT then unit_from_name (lower (name column))
      else if dtype_of column = StringT then unit_from_values (take 5 (lower_strings rt column))
      else None)"

definition numeric_values :: "series \<Rightarrow> real list" where
  "numeric_values column = map float_of_numeric (filter is_numeric_value (cells column))"

definition make_mapping :: "string \<Rightarrow> real \<Rightarrow> int option \<Rightarrow> string option \<Rightarrow> col_mapping" where
  "make_mapping cat conf sc u = \<lparr> category = cat, confidence = conf, scope = sc, unit = u \<rparr>"

text \<open>The first unit word of \<open>infer_from_content\<close> that occurs in some cell.\<close>

fun first_unit_in_values :: "string list \<Rightarrow> string list \<Rightarrow> string option" where
  "first_unit_in_values [] sample_values = None"
| "first_unit_in_values (u # us) sample_values =
     (if list_ex (\<lambda>v. contains u (lower v)) sample_values then Some u
      else first_unit_in_values us sample_values)"

text \<open>
  \<open>infer_from_content\<close>: \<open>Some m\<close> when the function stores \<open>m\<close> for the column and
  returns true, \<open>None\<close> when it returns false. A numeric column without a single number
  makes \<open>min\<close> fail; the source passes over that exception.
\<close>

definition infer_from_content :: "pyrt \<Rightarrow> dataframe \<Rightarrow> string \<Rightarrow> col_mapping option" where
  "infer_from_content rt df column =
     (let col = get_column df column in
      if empty_or_all_na col then None
      else if dtype_of col = DatetimeT then Some (make_mapping ''date'' 0.9 None None)
      else if dtype_of col = NumericT \<and> numeric_values col \<noteq> [] then
        (let min_val = Min (set (numeric_values col)); max_val = Max (set (numeric_values col)) in
         if 0 \<le> min_val \<and> min_val \<le> 100 \<and> 0 \<le> max_val \<and> max_val \<le> 100
         then Some (make_mapping ''amount'' 0.6 None (Some ''%''))
         else Some (make_mapping ''amount'' 0.7 None (detect_unit rt col)))
      else if dtype_of col = StringT then
        (let sample_values = lower_strings rt col in
         if list_ex (\<lambda>v. contains ''scope 1'' (lower v)) sample_values
           then Some (make_mapping ''category'' 0.8 (Some 1) None)
         else if list_ex (\<lambda>v. contains ''scope 2'' (lower v)) sample_values
           then Some (make_mapping ''category'' 0.8 (Some 2) None)
         else if list_ex (\<lambda>v. contains ''scope 3'' (lower v)) sample_values
           then Some (make_mapping ''category'' 0.8 (Some 3) None)
         else
           (case first_unit_in_values
                   [''kwh'', ''mwh'', ''kg'', ''ton'', ''tonnes'', ''liter'', ''litre'', ''gallon'',
                    ''km'', ''mile'', ''m3''] sample_values of
              Some u \<Rightarrow> Some (make_mapping ''unit'' 0.7 None (Some u))
            | None \<Rightarrow>
                if list_ex (\<lambda>v. any_in [''diesel'', ''gasoline'', ''petrol'', ''natural gas'',
                                          ''lpg'', ''propane''] (lower v)) sample_values
                then Some (make_mapping ''fuel'' 0.8 (Some 1) None)
                else None))
      else None)"

text \<open>
  The language-model collaborator: whether a key is configured, and, for a column name and
  its sample values, the mapping the code builds from a parseable answer (\<open>None\<close> when
  there is no answer or parsing it raises, which the source catches).
\<close>

record ai_env =
  has_openai_api :: bool
  ai_mapping :: "string \<Rightarrow> cell list \<Rightarrow> col_mapping option"

text \<open>The body of the loop of \<open>detect_column_types\<close>: the mapping stored for one column.\<close>

definition classify_column :: "ai_env \<Rightarrow> pyrt \<Rightarrow> dataframe \<Rightarrow> bool \<Rightarrow> string \<Rightarrow> col_mapping" where
  "classify_column env rt df use_ai column =
     (case match_patterns patterns (lower column) of
        Some cat \<Rightarrow>
          make_mapping cat 0.8 (get_scope_for_category cat)
            (if cat \<in> set [''amount'', ''unit''] then detect_unit rt (get_column df column) else None)
      | None \<Rightarrow>
          (case infer_from_content rt df column of
             Some m \<Rightarrow> m
           | None \<Rightarrow>
               (case (if use_ai \<and> has_openai_api env
                      then ai_mapping env column (take 3 (filter notna (cells (get_column df column))))
                      else None) of
                  Some m \<Rightarrow> m
                | None \<Rightarrow> make_mapping ''unknown'' 0.1 None None)))"

fun detect_columns ::
  "ai_env \<Rightarrow> pyrt \<Rightarrow> dataframe \<Rightarrow> bool \<Rightarrow> string list \<Rightarrow> column_mappings \<Rightarrow> column_mappings" where
  "detect_columns env rt df use_ai [] column_types = column_types"
| "detect_columns env rt df use_ai (column # rest) column_types =
     detect_columns env rt df use_ai rest
       (AList.update column (classify_column env rt df use_ai column) column_types)"

definition detect_column_types :: "ai_env \<Rightarrow> pyrt \<Rightarrow> dataframe \<Rightarrow> bool \<Rightarrow> column_mappings" where
  "detect_column_types env rt df use_ai = detect_columns env rt df use_ai (columns df) []"

section \<open>The tabular reader\<close>

text \<open>
  \<open>read_excel_file\<close> writes the upload to a named temporary file that is not deleted on
  close, and parses that file with pandas. The outcomes of the calls it makes outside the
  repository are given: whether reading and writing the uploaded bytes succeeds, and what
  each of the three \<open>pd.read_excel\<close> attempts returns (\<open>None\<close> where it raises). The
  file system is the set of paths that exist.
\<close>

record excel_source =
  write_ok :: bool
  read_default :: "dataframe option"
  read_first_sheet :: "dataframe option"
  read_all_sheets :: "(string \<times> dataframe) list option"

text \<open>The characters below 128 that \<open>str.strip()\<close> removes.\<close>

definition is_space :: "char \<Rightarrow> bool" where
  "is_space c = (c \<in> set [CHR '' '', CHR 0x09, CHR 0x0A, CHR 0x0B, CHR 0x0C, CHR 0x0D,
                            CHR 0x1C, CHR 0x1D, CHR 0x1E, CHR 0x1F])"

definition strip :: "string \<Rightarrow> string" where
  "strip s = rev (dropWhile is_space (rev (dropWhile is_space s)))"

text \<open>\<open>df.empty\<close>: one of the axes has length zero.\<close>

definition df_empty :: "dataframe \<Rightarrow> bool" where
  "df_empty df = (columns df = [] \<or> rows df = [])"

text \<open>
  Lines 102-106: the column names are stripped; a cell is found under the new name of
  its column (the first of them, where stripping makes two names equal). NaN and
  \<open>None\<close> are the same \<open>Null\<close> here, so the replacement of NaN changes no cell; it
  turns a numeric column that holds a missing value into an object column.
\<close>

definition clean_columns :: "dataframe \<Rightarrow> dataframe" where
  "clean_columns df =
     \<lparr> columns = map strip (columns df),
       dtypes = (\<lambda>n. case find (\<lambda>col. strip col = n) (columns df) of
                        Some col \<Rightarrow>
                          if dtypes df col = NumericT \<and> list_ex (\<lambda>row. row col = Null) (rows df)
                          then ObjectT else dtypes df col
                      | None \<Rightarrow> ObjectT),
       rows = map (\<lambda>row n. case find (\<lambda>col. strip col = n) (columns df) of
                               Some col \<Rightarrow> row col | None \<Rightarrow> Null) (rows df) \<rparr>"

text \<open>
  Lines 99-108, reached when the reading attempts have not returned: the temporary file is
  unlinked, then the table is cleaned; \<open>df\<close> is unbound (\<open>None\<close>) when every sheet was
  empty, and the exception that raises is caught by the outer handler.
\<close>

definition finish_read :: "dataframe option \<Rightarrow> string \<Rightarrow> string set \<Rightarrow> dataframe option \<times> string set" where
  "finish_read df tmp_path fs =
     (case df of
        None \<Rightarrow> (None, fs - {tmp_path})
      | Some d \<Rightarrow> (Some (clean_columns d), fs - {tmp_path}))"

definition read_excel_file ::
  "excel_source \<Rightarrow> string \<Rightarrow> string set \<Rightarrow> dataframe option \<times> string set" where
  "read_excel_file file tmp_path fs =
     (let fs1 = insert tmp_path fs in
      if \<not> write_ok file then (None, fs1)
      else
        (case read_default file of
           Some df \<Rightarrow> finish_read (Some df) tmp_path fs1
         | None \<Rightarrow>
             (case read_first_sheet file of
                Some df \<Rightarrow> finish_read (Some df) tmp_path fs1
              | None \<Rightarrow>
                  (case read_all_sheets file of
                     None \<Rightarrow> (None, fs1)
                   | Some dfs \<Rightarrow>
                       if length dfs > 0
                       then finish_read (map_option snd (find (\<lambda>(sheet_name, sheet_df). \<not> df_empty sheet_df) dfs))
                              tmp_path fs1
                       else (None, fs1)))))"

section \<open>Worked inputs\<close>

text \<open>A runtime whose conversions are never consulted on the inputs below, an empty row, and
  a table of object columns.\<close>

definition plain_rt :: pyrt where
  "plain_rt = \<lparr> str_num = (\<lambda>r. ''0''), float_str = (\<lambda>s. None) \<rparr>"

definition empty_row :: "string \<Rightarrow> cell" where
  "empty_row = (\<lambda>col. Null)"

definition table_of :: "string list \<Rightarrow> (string \<Rightarrow> cell) list \<Rightarrow> dataframe" where
  "table_of cols rs = \<lparr> columns = cols, dtypes = (\<lambda>col. ObjectT), rows = rs \<rparr>"




text \<open>A category cell that names a fuel and a scope, with no column declaring a scope.\<close>

definition scope_text_mappings :: column_mappings where
  "scope_text_mappings =
     [(''Category'', make_mapping ''category'' 0.8 None None),
      (''Amount'', make_mapping ''amount'' 0.8 None None)]"

definition scope_text_row :: "string \<Rightarrow> cell" where
  "scope_text_row = empty_row(''Category'' := Str ''Diesel (Scope 2)'', ''Amount'' := Num 10)"

definition scope_text_table :: dataframe where
  "scope_text_table = table_of [''Category'', ''Amount''] [scope_text_row]"

text \<open>A fuel column that declares scope 1 beside a category cell that names scope 2, and the
  same row under a fuel column that declares no scope.\<close>

definition hinted_mappings :: column_mappings where
  "hinted_mappings =
     [(''Fuel type'', make_mapping ''fuel'' 0.8 (Some 1) None),
      (''Category'', make_mapping ''category'' 0.8 None None),
      (''Amount'', make_mapping ''amount'' 0.8 None None)]"

definition hinted_row :: "string \<Rightarrow> cell" where
  "hinted_row = empty_row(''Fuel type'' := Str ''Diesel'', ''Category'' := Str ''Scope 2 purchase'',
     ''Amount'' := Num 10)"

definition hinted_table :: dataframe where
  "hinted_table = table_of [''Fuel type'', ''Category'', ''Amount''] [hinted_row]"

definition text_only_mappings :: column_mappings where
  "text_only_mappings =
     [(''Fuel type'', make_mapping ''fuel'' 0.8 None None),
      (''Category'', make_mapping ''category'' 0.8 None None),
      (''Amount'', make_mapping ''amount'' 0.8 None None)]"

text \<open>A runtime in which \<open>float('12')\<close> is 12, and a row whose amount cell is that text.\<close>

definition numeral_rt :: pyrt where
  "numeral_rt = \<lparr> str_num = (\<lambda>r. ''0''), float_str = (\<lambda>s. if s = ''12'' then Some 12 else None) \<rparr>"

definition text_amount_mappings :: column_mappings where
  "text_amount_mappings =
     [(''Fuel type'', make_mapping ''fuel'' 0.8 (Some 1) None),
      (''Amount'', make_mapping ''amount'' 0.8 None None)]"

definition text_amount_row :: "string \<Rightarrow> cell" where
  "text_amount_row = empty_row(''Fuel type'' := Str ''Diesel'', ''Amount'' := Str ''12'')"

definition text_amount_table :: dataframe where
  "text_amount_table = table_of [''Fuel type'', ''Amount''] [text_amount_row]"

text \<open>Two amount columns after a fuel column: in the first row the first amount cell is not
  a number, in the second row only one amount cell is filled.\<close>

definition two_amount_mappings :: column_mappings where
  "two_amount_mappings =
     [(''Fuel type'', make_mapping ''fuel'' 0.8 (Some 1) None),
      (''Litres'', make_mapping ''amount'' 0.8 None None),
      (''Cost'', make_mapping ''amount'' 0.8 None None)]"

definition malformed_first_row :: "string \<Rightarrow> cell" where
  "malformed_first_row =
     empty_row(''Fuel type'' := Str ''Diesel'', ''Litres'' := Str ''n/a'', ''Cost'' := Num 7)"

definition single_amount_row :: "string \<Rightarrow> cell" where
  "single_amount_row = empty_row(''Fuel type'' := Str ''Diesel'', ''Cost'' := Num 7)"

definition no_amount_row :: "string \<Rightarrow> cell" where
  "no_amount_row = empty_row(''Fuel type'' := Str ''Diesel'', ''Litres'' := Str ''n/a'')"

definition two_amount_table :: dataframe where
  "two_amount_table =
     table_of [''Fuel type'', ''Litres'', ''Cost'']
       [malformed_first_row, single_amount_row, no_amount_row]"

text \<open>
  The mapper followed by the calculator, as the import page calls them
  (\<open>pages/1_Data_Input_streamlit.py\<close>, lines 1621-1628), and the same after the
  classifier has produced the mappings (line 1342), without the language model.
\<close>

definition map_and_calculate ::
  "pyrt \<Rightarrow> dataframe \<Rightarrow> column_mappings \<Rightarrow> factors option \<Rightarrow> py_error + results" where
  "map_and_calculate rt df column_mappings emission_factors =
     (case map_to_emission_categories rt df column_mappings of
        Inl e \<Rightarrow> Inl e
      | Inr sd \<Rightarrow> calculate_emissions rt sd emission_factors)"

definition no_ai :: ai_env where
  "no_ai = \<lparr> has_openai_api = False, ai_mapping = (\<lambda>column sample_values. None) \<rparr>"

definition smart_import :: "pyrt \<Rightarrow> dataframe \<Rightarrow> py_error + results" where
  "smart_import rt df = map_and_calculate rt df (detect_column_types no_ai rt df False) None"

text \<open>The scope list a row is appended to, if it is appended.\<close>

definition emitted_scope :: "pyrt \<Rightarrow> dataframe \<Rightarrow> column_mappings \<Rightarrow> (string \<Rightarrow> cell) \<Rightarrow> int option" where
  "emitted_scope rt df column_mappings row =
     (case map_row rt df column_mappings row of
        Inr (Some (n, it)) \<Rightarrow> Some n
      | _ \<Rightarrow> None)"

text \<open>A kind total as a reader of the report takes it: a kind without an entry counts 0.\<close>

definition kind_total :: "scope_result \<Rightarrow> string \<Rightarrow> real" where
  "kind_total sr kind = (case map_of (categories sr) kind of None \<Rightarrow> 0 | Some v \<Rightarrow> v)"

text \<open>Three rows of three kinds: electricity, then diesel, then a flight.\<close>

definition electricity_row :: "string \<Rightarrow> cell" where
  "electricity_row = empty_row(''Category'' := Str ''Electricity'', ''Amount'' := Num 100)"

definition diesel_row :: "string \<Rightarrow> cell" where
  "diesel_row = empty_row(''Category'' := Str ''Diesel Fuel'', ''Amount'' := Num 10)"

definition flight_row :: "string \<Rightarrow> cell" where
  "flight_row = empty_row(''Category'' := Str ''Business Flight'', ''Amount'' := Num 1000)"

definition mixed_table :: dataframe where
  "mixed_table = table_of [''Category'', ''Amount''] [electricity_row, diesel_row, flight_row]"

definition mixed_structured :: structured_data where
  "mixed_structured = projr (map_to_emission_categories plain_rt mixed_table scope_text_mappings)"

definition mixed_report :: results where
  "mixed_report = projr (calculate_emissions plain_rt mixed_structured None)"

text \<open>A sheet as pandas reads it: the named columns are numeric, the others hold strings.\<close>

definition sheet_of :: "string list \<Rightarrow> string list \<Rightarrow> (string \<Rightarrow> cell) list \<Rightarrow> dataframe" where
  "sheet_of cols numeric_cols rs =
     \<lparr> columns = cols,
       dtypes = (\<lambda>col. if col \<in> set numeric_cols then NumericT else StringT),
       rows = rs \<rparr>"

text \<open>One kilogram of R-134a, and the refrigerant leak of scenario S4.\<close>

definition r134a_row :: "string \<Rightarrow> cell" where
  "r134a_row = empty_row(''Category'' := Str ''R-134a'', ''Amount'' := Num 1, ''Unit'' := Str ''kg'')"

definition r134a_table :: dataframe where
  "r134a_table = sheet_of [''Category'', ''Amount'', ''Unit''] [''Amount''] [r134a_row]"

definition r134a_item :: item where
  "r134a_item =
     make_item r134a_table (detect_column_types no_ai plain_rt r134a_table False) r134a_row
       ''refrigerant'' 1 (Some ''kg'') (Some ''r-134a'')"

definition r410a_row :: "string \<Rightarrow> cell" where
  "r410a_row = empty_row(''Category'' := Str ''Refrigerant R-410A'', ''Amount'' := Num 2.5,
     ''Unit'' := Str ''kg'', ''Scope'' := Str ''Scope 1'')"

definition r410a_table :: dataframe where
  "r410a_table = sheet_of [''Category'', ''Amount'', ''Unit'', ''Scope''] [''Amount''] [r410a_row]"

text \<open>The long-haul flight of scenario S3.\<close>

definition long_haul_row :: "string \<Rightarrow> cell" where
  "long_haul_row = empty_row(''Category'' := Str ''Business Flight (Long-haul International)'',
     ''Amount'' := Num 3500, ''Unit'' := Str ''km'', ''Scope'' := Str ''Scope 3'')"

definition long_haul_table :: dataframe where
  "long_haul_table =
     sheet_of [''Category'', ''Amount'', ''Unit'', ''Scope''] [''Amount''] [long_haul_row]"

text \<open>Rows with a zero amount: one with a fuel column, one with nothing that names a kind,
  and one with a second amount cell that is not zero.\<close>

definition zero_amount_row :: "string \<Rightarrow> cell" where
  "zero_amount_row = empty_row(''Fuel type'' := Str ''Diesel'', ''Cost'' := Num 0)"

definition zero_notes_mappings :: column_mappings where
  "zero_notes_mappings =
     [(''Amount'', make_mapping ''amount'' 0.8 None None),
      (''Notes'', make_mapping ''notes'' 0.8 None None)]"

definition zero_notes_row :: "string \<Rightarrow> cell" where
  "zero_notes_row = empty_row(''Amount'' := Num 0, ''Notes'' := Str ''n/a'')"

definition zero_notes_table :: dataframe where
  "zero_notes_table = table_of [''Amount'', ''Notes''] [zero_notes_row]"

definition zero_then_five_row :: "string \<Rightarrow> cell" where
  "zero_then_five_row =
     empty_row(''Fuel type'' := Str ''Diesel'', ''Litres'' := Num 0, ''Cost'' := Num 5)"

definition zero_then_five_table :: dataframe where
  "zero_then_five_table = table_of [''Fuel type'', ''Litres'', ''Cost''] [zero_then_five_row]"

text \<open>One-column sheets whose column name is a unit token: numbers, text, and no rows under
  \<open>kg\<close>, and numbers under \<open>kwh\<close>.\<close>

definition kg_numeric_table :: dataframe where
  "kg_numeric_table = sheet_of [''kg''] [''kg''] [empty_row(''kg'' := Num 5)]"

definition kg_text_table :: dataframe where
  "kg_text_table = sheet_of [''kg''] [] [empty_row(''kg'' := Str ''heavy'')]"

definition kg_empty_table :: dataframe where
  "kg_empty_table = sheet_of [''kg''] [''kg''] []"

definition kwh_table :: dataframe where
  "kwh_table = sheet_of [''kwh''] [''kwh''] [empty_row(''kwh'' := Num 5)]"

text \<open>An upload that none of the three reading attempts can parse.\<close>

definition unreadable_upload :: excel_source where
  "unreadable_upload =
     \<lparr> write_ok = True, read_default = None, read_first_sheet = None, read_all_sheets = None \<rparr>"

text \<open>The string values of a dictionary, and the texts of the string cells of a row, each
  as written and in lower case.\<close>

definition strings_of :: "(string \<times> cell) list \<Rightarrow> string list" where
  "strings_of d = concat (map (\<lambda>(key, c). case c of Str s \<Rightarrow> [s] | _ \<Rightarrow> []) d)"

definition row_texts :: "dataframe \<Rightarrow> (string \<Rightarrow> cell) \<Rightarrow> string list" where
  "row_texts df row =
     concat (map (\<lambda>col. case row col of Str s \<Rightarrow> [s, lower s] | _ \<Rightarrow> []) (columns df))"

text \<open>The records the mapper builds from the rows of scenarios S3 and S4, and one kilogram
  of R-134a written as scenario S4 writes its leak.\<close>

definition long_haul_item :: item where
  "long_haul_item =
     make_item long_haul_table (detect_column_types no_ai plain_rt long_haul_table False)
       long_haul_row ''transport'' 3500 (Some ''km'')
       (Some ''business flight (long-haul international)'')"

definition r410a_item :: item where
  "r410a_item =
     make_item r410a_table (detect_column_types no_ai plain_rt r410a_table False) r410a_row
       ''refrigerant'' 2.5 (Some ''kg'') (Some ''refrigerant r-410a'')"

definition r134a_leak_row :: "string \<Rightarrow> cell" where
  "r134a_leak_row = empty_row(''Category'' := Str ''Refrigerant R-134a'', ''Amount'' := Num 1,
     ''Unit'' := Str ''kg'', ''Scope'' := Str ''Scope 1'')"

definition r134a_leak_table :: dataframe where
  "r134a_leak_table =
     sheet_of [''Category'', ''Amount'', ''Unit'', ''Scope''] [''Amount''] [r134a_leak_row]"

text \<open>The line that lines 887-894 append for a record, and two reports with the same grand
  total, scope totals and kind totals.\<close>

definition line_of :: "string \<Rightarrow> item \<Rightarrow> real \<Rightarrow> line_item" where
  "line_of key it e =
     \<lparr> line_scope = key, line_type = item_type it, line_data = data it, emissions = e,
       line_original_row = original_row it \<rparr>"

definition same_totals :: "results \<Rightarrow> results \<Rightarrow> bool" where
  "same_totals r r' =
     (total r = total r'
      \<and> scope_total (res_scope1 r) = scope_total (res_scope1 r')
      \<and> scope_total (res_scope2 r) = scope_total (res_scope2 r')
      \<and> scope_total (res_scope3 r) = scope_total (res_scope3 r')
      \<and> (\<forall>kind. kind_total (res_scope1 r) kind = kind_total (res_scope1 r') kind)
      \<and> (\<forall>kind. kind_total (res_scope2 r) kind = kind_total (res_scope2 r') kind)
      \<and> (\<forall>kind. kind_total (res_scope3 r) kind = kind_total (res_scope3 r') kind))"

text \<open>The records of the rows with 7 and with 0 under \<open>Cost\<close>, and the report of the
  calculator on the first of them alone.\<close>

definition seven_item :: item where
  "seven_item = make_item two_amount_table two_amount_mappings single_amount_row ''fuel'' 7 None None"

definition zero_item :: item where
  "zero_item = make_item two_amount_table two_amount_mappings zero_amount_row ''fuel'' 0 None None"

definition seven_report :: results where
  "seven_report =
     projr (calculate_emissions plain_rt \<lparr>scope1 = [seven_item], scope2 = [], scope3 = []\<rparr>
              (Some default_factors))"

section \<open>The row mapper: kind, scope and dropped rows\<close>

lemma kind_not_meta:
  "c \<in> set emission_kinds \<Longrightarrow> c \<notin> set [''amount'', ''unit'', ''date'', ''notes'', ''unknown'']"
  unfolding emission_kinds_def by auto

lemma kind_truthy: "k \<in> set emission_kinds \<Longrightarrow> truthy_str (Some k)"
  unfolding emission_kinds_def by auto

lemma type_from_columns_hit:
  "col \<in> set (columns df) \<Longrightarrow> notna (row col) \<Longrightarrow> category m \<in> set emission_kinds \<Longrightarrow>
   type_from_columns df row ((col, m) # rest) st =
     (if truthy_int (scope m) then (Some (category m), scope m)
      else type_from_columns df row rest (Some (category m), scope m))"
  using kind_not_meta[of "category m"] kind_truthy[of "category m"]
  by (simp del: set_simps truthy_str.simps)

lemma type_from_columns_miss:
  "\<not> (col \<in> set (columns df) \<and> notna (row col) \<and> category m \<in> set emission_kinds) \<Longrightarrow>
   type_from_columns df row ((col, m) # rest) st = type_from_columns df row rest st"
  by (auto simp del: set_simps)


lemma type_from_columns_keeps_kind:
  "fst st = Some k \<Longrightarrow> k \<in> set emission_kinds
   \<Longrightarrow> \<exists>k' \<in> set emission_kinds. fst (type_from_columns df row cms st) = Some k'"
proof (induction cms arbitrary: st k)
  case Nil
  then show ?case by auto
next
  case (Cons p cms)
  obtain col m where p: "p = (col, m)" by (cases p)
  show ?case
  proof (cases "col \<in> set (columns df) \<and> notna (row col) \<and> category m \<in> set emission_kinds")
    case True
    have "\<exists>k' \<in> set emission_kinds.
            fst (type_from_columns df row cms (Some (category m), scope m)) = Some k'"
      by (rule Cons.IH[of _ "category m"]) (use True in simp_all)
    with True show ?thesis
      unfolding p by (simp add: type_from_columns_hit del: type_from_columns.simps)
  next
    case False
    have "\<exists>k' \<in> set emission_kinds. fst (type_from_columns df row cms st) = Some k'"
      by (rule Cons.IH[OF Cons.prems])
    with False show ?thesis
      unfolding p by (simp add: type_from_columns_miss del: type_from_columns.simps)
  qed
qed




lemma item_type_make_item [simp]: "item_type (make_item df cms row e a u c) = e"
  by (simp add: make_item_def)

lemma original_row_make_item [simp]: "original_row (make_item df cms row e a u c) = to_dict df row"
  by (simp add: make_item_def)

lemma count_list_distinct: "distinct xs \<Longrightarrow> count_list xs x \<le> 1"
  by (induction xs) (auto simp: count_list_0_iff)

lemma repeated_distinct: "distinct (columns df) \<Longrightarrow> \<not> repeated df col"
  using count_list_distinct[of "columns df" col] by (simp add: repeated_def)

lemma cells_raise_distinct: "distinct (columns df) \<Longrightarrow> \<not> cells_raise df row cols"
  by (induction cols) (simp_all add: repeated_distinct)

lemma amount_cells_raise_distinct: "distinct (columns df) \<Longrightarrow> \<not> amount_cells_raise df row cols"
  by (induction cols) (simp_all add: repeated_distinct)

lemma type_cells_raise_distinct: "distinct (columns df) \<Longrightarrow> \<not> type_cells_raise df row cms"
proof (induction cms)
  case Nil
  then show ?case by simp
next
  case (Cons p cms)
  obtain col m where p: "p = (col, m)" by (cases p)
  from Cons show ?case unfolding p
    by (simp add: repeated_distinct del: set_simps truthy_str.simps)
qed

lemma scope_cells_raise_distinct: "distinct (columns df) \<Longrightarrow> \<not> scope_cells_raise df row cms"
proof (induction cms)
  case Nil
  then show ?case by simp
next
  case (Cons p cms)
  obtain col m where p: "p = (col, m)" by (cases p)
  from Cons show ?case unfolding p by (simp add: repeated_distinct)
qed

lemma collect_raises_distinct: "distinct (columns df) \<Longrightarrow> \<not> collect_raises df cms"
proof (induction cms)
  case Nil
  then show ?case by simp
next
  case (Cons p cms)
  obtain col m where p: "p = (col, m)" by (cases p)
  from Cons show ?case unfolding p by (simp add: repeated_distinct del: set_simps)
qed

lemma row_raises_distinct: "distinct (columns df) \<Longrightarrow> \<not> row_raises df cms row"
  unfolding row_raises_def
  by (simp add: cells_raise_distinct amount_cells_raise_distinct type_cells_raise_distinct
      scope_cells_raise_distinct)

lemma map_row_no_raise:
  assumes "map_row rt df cms row = Inr r"
  shows "\<not> row_raises df cms row"
  using assms unfolding map_row_def by (auto split: if_splits)

lemma map_row_emitted:
  assumes "map_row rt df cms row = Inr (Some (n, it))"
  shows "extract_amount row (columns_of_category df cms ''amount'') \<noteq> None
     \<and> fst (resolve_type_scope rt df cms row) = Some (item_type it)
     \<and> snd (resolve_type_scope rt df cms row) = Some n \<and> n \<in> {1, 2, 3}"
proof -
  obtain et sc where r: "resolve_type_scope rt df cms row = (et, sc)"
    by (cases "resolve_type_scope rt df cms row")
  have nr: "\<not> row_raises df cms row" by (rule map_row_no_raise[OF assms])
  from assms have g: "extract_amount row (columns_of_category df cms ''amount'') \<noteq> None
      \<and> truthy_str et \<and> truthy_int sc \<and> \<not> collect_raises df cms \<and> the sc \<in> {1, 2, 3}"
    unfolding map_row_def Let_def r if_not_P[OF nr] by (simp split: if_splits)
  then obtain e s where es: "et = Some e" "sc = Some s"
    by (cases et; cases sc) simp_all
  from g have c: "extract_amount row (columns_of_category df cms ''amount'') \<noteq> None
      \<and> truthy_str et \<and> truthy_int sc" "\<not> collect_raises df cms" "the sc \<in> {1, 2, 3}"
    by blast+
  from assms have "(the sc, make_item df cms row (the et)
       (the (extract_amount row (columns_of_category df cms ''amount'')))
       (extract_unit rt row (columns_of_category df cms ''unit''))
       (extract_category rt row (columns_of_category df cms ''category''))) = (n, it)"
    unfolding map_row_def Let_def r prod.case if_not_P[OF nr] if_P[OF c(1)] if_not_P[OF c(2)]
      if_P[OF c(3)] by simp
  then have "n = s \<and> item_type it = e" using es by auto
  with g es r show ?thesis by simp
qed




section \<open>The row mapper: precedence of the scope\<close>

lemma scope_from_columns_split:
  "scope_from_columns df row cms sc =
     (case scope_from_columns df row cms None of Some h \<Rightarrow> Some h | None \<Rightarrow> sc)"
proof (induction cms)
  case Nil
  then show ?case by simp
next
  case (Cons p cms)
  obtain col m where p: "p = (col, m)" by (cases p)
  show ?case unfolding p using Cons.IH by (cases "scope m") auto
qed


lemma type_from_category_range:
  "type_from_category text = Some (t, s) \<Longrightarrow> s \<in> {1, 2, 3}"
  unfolding type_from_category_def by (simp split: if_splits)

lemma scope_from_category_truthy:
  "truthy_int sc \<Longrightarrow> scope_from_category cv sc = sc"
  by (simp add: scope_from_category_def split: option.splits)

text \<open>
  Claim C2, as the code has it. The scope of a row follows the precedence: the hint of the
  first mapped column, in mapping order, that declares a scope and has a non-null cell;
  then the scope set with the kind (the hint of the kind column, or the default of the kind
  found by keyword in the category text); and the \<open>scope N\<close> named in the category
  text last, read only when no scope has been set. A row whose kind comes from the keywords
  of its category text takes the default scope of that kind, whatever scope the text names.
\<close>

theorem scope_precedence:
  "let cv = extract_category rt row (columns_of_category df cms ''category'');
       ks = kind_and_scope df cms row cv;
       final = snd (resolve_type_scope rt df cms row)
   in (scope_from_columns df row cms None = Some h \<and> h \<noteq> 0 \<longrightarrow> final = Some h)
    \<and> (scope_from_columns df row cms None = None \<and> truthy_int (snd ks) \<longrightarrow> final = snd ks)
    \<and> (scope_from_columns df row cms None = None \<and> \<not> truthy_int (snd ks)
          \<longrightarrow> final = scope_from_category cv (snd ks))
    \<and> (scope_from_columns df row cms None = None
          \<and> fst (type_from_columns df row cms (None, None)) = None
          \<and> truthy_str cv \<and> type_from_category (the cv) = Some (t, s)
          \<longrightarrow> resolve_type_scope rt df cms row = (Some t, Some s))"
proof -
  define cv where "cv = extract_category rt row (columns_of_category df cms ''category'')"
  define ks where "ks = kind_and_scope df cms row cv"
  obtain et sc where ks_eq: "ks = (et, sc)" by (cases ks)
  have r: "resolve_type_scope rt df cms row =
             (et, scope_from_category cv (scope_from_columns df row cms sc))"
    unfolding resolve_type_scope_def Let_def cv_def[symmetric] ks_def[symmetric] ks_eq by simp
  have split_sc: "scope_from_columns df row cms sc =
      (case scope_from_columns df row cms None of Some h \<Rightarrow> Some h | None \<Rightarrow> sc)"
    by (rule scope_from_columns_split)
  have c1: "scope_from_columns df row cms None = Some h \<and> h \<noteq> 0
              \<longrightarrow> snd (resolve_type_scope rt df cms row) = Some h"
    using r split_sc by (simp add: scope_from_category_truthy)
  have c2: "scope_from_columns df row cms None = None \<and> truthy_int (snd ks)
              \<longrightarrow> snd (resolve_type_scope rt df cms row) = snd ks"
    using r split_sc ks_eq by (simp add: scope_from_category_truthy)
  have c3: "scope_from_columns df row cms None = None \<and> \<not> truthy_int (snd ks)
          \<longrightarrow> snd (resolve_type_scope rt df cms row) = scope_from_category cv (snd ks)"
    using r split_sc ks_eq by simp
  have c4: "scope_from_columns df row cms None = None
          \<and> fst (type_from_columns df row cms (None, None)) = None
          \<and> truthy_str cv \<and> type_from_category (the cv) = Some (t, s)
          \<longrightarrow> resolve_type_scope rt df cms row = (Some t, Some s)"
  proof
    assume a: "scope_from_columns df row cms None = None
          \<and> fst (type_from_columns df row cms (None, None)) = None
          \<and> truthy_str cv \<and> type_from_category (the cv) = Some (t, s)"
    obtain x y where xy: "type_from_columns df row cms (None, None) = (x, y)"
      by (cases "type_from_columns df row cms (None, None)")
    with a have x: "x = None" by simp
    have "ks = (Some t, Some s)"
      unfolding ks_def kind_and_scope_def Let_def xy x prod.case using a by simp
    with ks_eq have e: "et = Some t" "sc = Some s" by simp_all
    from a have "s \<in> {1, 2, 3}" using type_from_category_range by blast
    then have "truthy_int (Some s)" by auto
    with r e split_sc a show "resolve_type_scope rt df cms row = (Some t, Some s)"
      by (simp add: scope_from_category_truthy)
  qed
  from c1 c2 c3 c4 show ?thesis
    unfolding Let_def cv_def[symmetric] ks_def[symmetric] by blast
qed

theorem scope_precedence_witness:
  "snd (resolve_type_scope plain_rt hinted_table hinted_mappings hinted_row) = Some 1
   \<and> snd (resolve_type_scope plain_rt scope_text_table scope_text_mappings scope_text_row) = Some 1
   \<and> snd (resolve_type_scope plain_rt hinted_table text_only_mappings hinted_row) = Some 2
   \<and> resolve_type_scope plain_rt scope_text_table scope_text_mappings scope_text_row
       = (Some ''fuel'', Some 1)"
proof -
  have h1: "scope_from_columns hinted_table hinted_row hinted_mappings None = Some 1 \<and> (1::int) \<noteq> 0"
    by code_simp
  have w1: "snd (resolve_type_scope plain_rt hinted_table hinted_mappings hinted_row) = Some 1"
    using scope_precedence[where rt = plain_rt and df = hinted_table and cms = hinted_mappings
        and row = hinted_row and h = 1, unfolded Let_def] h1 by blast
  have h2: "scope_from_columns scope_text_table scope_text_row scope_text_mappings None = None
      \<and> truthy_int (snd (kind_and_scope scope_text_table scope_text_mappings scope_text_row
           (extract_category plain_rt scope_text_row
              (columns_of_category scope_text_table scope_text_mappings ''category''))))"
    by code_simp
  have v2: "snd (kind_and_scope scope_text_table scope_text_mappings scope_text_row
           (extract_category plain_rt scope_text_row
              (columns_of_category scope_text_table scope_text_mappings ''category''))) = Some 1"
    by code_simp
  have w2: "snd (resolve_type_scope plain_rt scope_text_table scope_text_mappings scope_text_row) = Some 1"
    using scope_precedence[where rt = plain_rt and df = scope_text_table
        and cms = scope_text_mappings and row = scope_text_row, unfolded Let_def] h2 v2 by simp
  have h3: "scope_from_columns hinted_table hinted_row text_only_mappings None = None
      \<and> \<not> truthy_int (snd (kind_and_scope hinted_table text_only_mappings hinted_row
           (extract_category plain_rt hinted_row
              (columns_of_category hinted_table text_only_mappings ''category''))))"
    by code_simp
  have v3: "scope_from_category
          (extract_category plain_rt hinted_row
              (columns_of_category hinted_table text_only_mappings ''category''))
          (snd (kind_and_scope hinted_table text_only_mappings hinted_row
           (extract_category plain_rt hinted_row
              (columns_of_category hinted_table text_only_mappings ''category'')))) = Some 2"
    by code_simp
  have w3: "snd (resolve_type_scope plain_rt hinted_table text_only_mappings hinted_row) = Some 2"
    using scope_precedence[where rt = plain_rt and df = hinted_table
        and cms = text_only_mappings and row = hinted_row, unfolded Let_def] h3 v3 by simp
  have h4: "scope_from_columns scope_text_table scope_text_row scope_text_mappings None = None
      \<and> fst (type_from_columns scope_text_table scope_text_row scope_text_mappings (None, None)) = None
      \<and> truthy_str (extract_category plain_rt scope_text_row
              (columns_of_category scope_text_table scope_text_mappings ''category''))
      \<and> type_from_category (the (extract_category plain_rt scope_text_row
              (columns_of_category scope_text_table scope_text_mappings ''category'')))
          = Some (''fuel'', 1)"
    by code_simp
  have w4: "resolve_type_scope plain_rt scope_text_table scope_text_mappings scope_text_row
       = (Some ''fuel'', Some 1)"
    using scope_precedence[where rt = plain_rt and df = scope_text_table
        and cms = scope_text_mappings and row = scope_text_row and t = "''fuel''" and s = 1,
        unfolded Let_def] h4 by blast
  from w1 w2 w3 w4 show ?thesis by simp
qed

text \<open>
  The claim as the specification words it fails: the only scope signal of this row is the
  text \<open>scope 2\<close> in its category cell, and the row is appended to the scope 1 list,
  the default of the kind found in the same cell.
\<close>

theorem category_scope_text_counterexample:
  "contains ''scope 2''
     (the (extract_category plain_rt scope_text_row
        (columns_of_category scope_text_table scope_text_mappings ''category'')))
   \<and> scope_from_columns scope_text_table scope_text_row scope_text_mappings None = None
   \<and> map_row plain_rt scope_text_table scope_text_mappings scope_text_row
      = Inr (Some (1, make_item scope_text_table scope_text_mappings scope_text_row ''fuel'' 10 None
          (Some ''diesel (scope 2)'')))"
  by code_simp

section \<open>The row mapper: the amount\<close>

lemma numeric_notna: "is_numeric_value v \<Longrightarrow> notna v"
  by (cases v) (simp_all add: notna_def)

lemma py_float_numeric: "is_numeric_value v \<Longrightarrow> py_float rt v = Inr (float_of_numeric v)"
  by (cases v) simp_all

lemma extract_amount_some:
  "extract_amount row cols = Some x \<Longrightarrow>
   \<exists>c \<in> set cols. notna (row c) \<and> is_numeric_value (row c) \<and> x = float_of_numeric (row c)"
  by (induction cols) (auto split: if_splits)

lemma columns_of_category_mem:
  "c \<in> set (columns_of_category df cms cat) \<Longrightarrow>
   \<exists>m. (c, m) \<in> set cms \<and> category m = cat \<and> c \<in> set (columns df)"
  unfolding columns_of_category_def by auto

lemma collect_data_hit:
  "col \<in> set (columns df) \<Longrightarrow> category m \<notin> set [''unknown'', ''ignore''] \<Longrightarrow> notna (row col) \<Longrightarrow>
   collect_data df row ((col, m) # rest) d =
     collect_data df row rest (AList.update (category m) (row col) d)"
  by (simp del: set_simps)

lemma collect_data_miss:
  "\<not> (col \<in> set (columns df) \<and> category m \<notin> set [''unknown'', ''ignore''] \<and> notna (row col)) \<Longrightarrow>
   collect_data df row ((col, m) # rest) d = collect_data df row rest d"
  by (auto simp del: set_simps)

lemma collect_data_key_pred:
  "\<forall>(c, m) \<in> set cms. c \<in> set (columns df) \<and> category m = k \<and> notna (row c) \<longrightarrow> Q (row c) \<Longrightarrow>
   \<exists>v. map_of d k = Some v \<and> Q v \<Longrightarrow>
   \<exists>v. map_of (collect_data df row cms d) k = Some v \<and> Q v"
proof (induction cms arbitrary: d)
  case Nil
  then show ?case by simp
next
  case (Cons p cms)
  obtain col m where p: "p = (col, m)" by (cases p)
  from Cons.prems(1) have rest:
    "\<forall>(c, m) \<in> set cms. c \<in> set (columns df) \<and> category m = k \<and> notna (row c) \<longrightarrow> Q (row c)"
    by simp
  show ?case
  proof (cases "col \<in> set (columns df) \<and> category m \<notin> set [''unknown'', ''ignore''] \<and> notna (row col)")
    case True
    have "\<exists>v. map_of (AList.update (category m) (row col) d) k = Some v \<and> Q v"
    proof (cases "category m = k")
      case True
      with \<open>col \<in> set (columns df) \<and> _\<close> Cons.prems(1) p have "Q (row col)" by simp
      with True show ?thesis by (simp add: update_conv')
    next
      case False
      with Cons.prems(2) show ?thesis by (simp add: update_conv')
    qed
    from Cons.IH[OF rest this] True show ?thesis
      unfolding p by (simp add: collect_data_hit del: collect_data.simps set_simps)
  next
    case False
    from Cons.IH[OF rest Cons.prems(2)] False show ?thesis
      unfolding p by (simp add: collect_data_miss del: collect_data.simps set_simps)
  qed
qed

lemma type_from_columns_kind:
  "fst (type_from_columns df row cms st) = fst st
   \<or> (\<exists>k \<in> set emission_kinds. fst (type_from_columns df row cms st) = Some k)"
proof (induction cms arbitrary: st)
  case Nil
  then show ?case by simp
next
  case (Cons p cms)
  obtain col m where p: "p = (col, m)" by (cases p)
  show ?case
  proof (cases "col \<in> set (columns df) \<and> notna (row col) \<and> category m \<in> set emission_kinds")
    case True
    have "\<exists>k' \<in> set emission_kinds.
            fst (type_from_columns df row cms (Some (category m), scope m)) = Some k'"
      by (rule type_from_columns_keeps_kind[of _ "category m"]) (use True in simp_all)
    with True show ?thesis
      unfolding p by (simp add: type_from_columns_hit del: type_from_columns.simps)
  next
    case False
    with Cons.IH[of st] show ?thesis
      unfolding p by (simp add: type_from_columns_miss del: type_from_columns.simps)
  qed
qed

lemma type_from_category_kind:
  "type_from_category text = Some (t, s) \<Longrightarrow> t \<in> set emission_kinds"
  unfolding type_from_category_def emission_kinds_def by (simp split: if_splits)

lemma resolve_type_scope_kind:
  assumes "fst (resolve_type_scope rt df cms row) = Some k"
  shows "k \<in> set emission_kinds"
proof -
  define cv where "cv = extract_category rt row (columns_of_category df cms ''category'')"
  obtain x y where xy: "type_from_columns df row cms (None, None) = (x, y)"
    by (cases "type_from_columns df row cms (None, None)")
  have x: "x = None \<or> (\<exists>k \<in> set emission_kinds. x = Some k)"
    using type_from_columns_kind[of df row cms "(None, None)"] xy by simp
  have fr: "fst (resolve_type_scope rt df cms row) = fst (kind_and_scope df cms row cv)"
    unfolding resolve_type_scope_def Let_def cv_def[symmetric]
    by (simp split: prod.splits)
  show ?thesis
  proof (cases "\<not> truthy_str x \<and> truthy_str cv")
    case True
    show ?thesis
    proof (cases "type_from_category (the cv)")
      case None
      with True have "kind_and_scope df cms row cv = (x, y)"
        unfolding kind_and_scope_def Let_def xy by simp
      with fr assms have "x = Some k" by simp
      with x show ?thesis by auto
    next
      case (Some ts)
      obtain t s where ts: "ts = (t, s)" by (cases ts)
      with True Some have "kind_and_scope df cms row cv = (Some t, Some s)"
        unfolding kind_and_scope_def Let_def xy by simp
      with fr assms have "t = k" by simp
      with Some ts type_from_category_kind show ?thesis by blast
    qed
  next
    case False
    then have "kind_and_scope df cms row cv = (x, y)"
      unfolding kind_and_scope_def Let_def xy by auto
    with fr assms have "x = Some k" by simp
    with x show ?thesis by auto
  qed
qed

lemma map_row_item:
  assumes "map_row rt df cms row = Inr (Some (n, it))"
  shows "\<exists>k a. k \<in> set emission_kinds
           \<and> extract_amount row (columns_of_category df cms ''amount'') = Some a
           \<and> it = make_item df cms row k a
                  (extract_unit rt row (columns_of_category df cms ''unit''))
                  (extract_category rt row (columns_of_category df cms ''category''))"
proof -
  obtain et sc where r: "resolve_type_scope rt df cms row = (et, sc)"
    by (cases "resolve_type_scope rt df cms row")
  from map_row_emitted[OF assms] r obtain a where
    a: "extract_amount row (columns_of_category df cms ''amount'') = Some a"
    and et: "et = Some (item_type it)" and sc: "sc = Some n" "n \<in> {1, 2, 3}"
    by auto
  have k: "item_type it \<in> set emission_kinds"
    using resolve_type_scope_kind[of rt df cms row "item_type it"] r et by simp
  have c: "Some a \<noteq> None \<and> truthy_str (Some (item_type it)) \<and> truthy_int (Some n)"
    using kind_truthy[OF k] sc by auto
  have c2: "the (Some n) \<in> {1, 2, 3}" using sc by simp
  have nr: "\<not> row_raises df cms row" by (rule map_row_no_raise[OF assms])
  have nc: "\<not> collect_raises df cms"
    using assms unfolding map_row_def Let_def r et sc a prod.case if_not_P[OF nr] if_P[OF c]
    by (simp split: if_splits)
  from assms have "it = make_item df cms row (item_type it) a
                  (extract_unit rt row (columns_of_category df cms ''unit''))
                  (extract_category rt row (columns_of_category df cms ''category''))"
    unfolding map_row_def Let_def r et sc a prod.case if_not_P[OF nr] if_P[OF c]
      if_not_P[OF nc] if_P[OF c2] by simp
  with k a show ?thesis by blast
qed

lemma kind_not_amount: "k \<in> set emission_kinds \<Longrightarrow> k \<noteq> ''amount''"
  unfolding emission_kinds_def by auto

lemma make_item_amount:
  assumes k: "k \<in> set emission_kinds"
    and w: "\<forall>(c, m) \<in> set cms. c \<in> set (columns df) \<and> category m = ''amount'' \<and> notna (row c)
              \<longrightarrow> Q (row c)"
    and q: "Q (Num a)"
  shows "\<exists>v. map_of (data (make_item df cms row k a u c)) ''amount'' = Some v \<and> Q v"
proof -
  have "map_of (AList.update k (Bool True)
            [(''amount'', Num a), (''unit'', opt_cell u), (''category'', opt_cell c)]) ''amount''
          = Some (Num a)"
    using kind_not_amount[OF k] by (simp add: update_conv')
  with q have "\<exists>v. map_of (AList.update k (Bool True)
            [(''amount'', Num a), (''unit'', opt_cell u), (''category'', opt_cell c)]) ''amount''
          = Some v \<and> Q v" by simp
  from collect_data_key_pred[OF w this] show ?thesis
    by (simp add: make_item_def)
qed

text \<open>
  Claim C5, at an input where the mapper departs from it. The amount cell of the row holds
  the text \<open>12\<close>, which \<open>float()\<close> converts to 12, and the kind and the scope of the row
  are resolved. The mapper asks for a cell of a numeric type (line 574), so it selects no
  amount and the row adds nothing; the copy of the loop in
  \<open>pages/1_Data_Input_streamlit.py\<close> converts the cell and selects 12.
\<close>

theorem numeric_text_amount_dropped:
  "notna (text_amount_row ''Amount'')
   \<and> py_float numeral_rt (text_amount_row ''Amount'') = Inr 12
   \<and> columns_of_category text_amount_table text_amount_mappings ''amount'' = [''Amount'']
   \<and> resolve_type_scope numeral_rt text_amount_table text_amount_mappings text_amount_row
       = (Some ''fuel'', Some 1)
   \<and> extract_amount text_amount_row [''Amount''] = None
   \<and> page_extract_amount numeral_rt text_amount_row [''Amount''] = Some 12
   \<and> map_row numeral_rt text_amount_table text_amount_mappings text_amount_row = Inr None"
  by code_simp

section \<open>The calculator: order of the line items\<close>

lemma scope_total_add [simp]: "scope_total (add_to_scope t e sr) = scope_total sr + e"
  by (simp add: add_to_scope_def)

lemma calculate_emissions_steps:
  assumes "calculate_emissions rt sd emission_factors = Inr res"
  obtains ef r1 r2 where
    "process_items rt ef ''scope1'' (scope1 sd) empty_results = Inr r1"
    "process_items rt ef ''scope2'' (scope2 sd) r1 = Inr r2"
    "process_items rt ef ''scope3'' (scope3 sd) r2 = Inr res"
proof -
  define ef where "ef = (case emission_factors of None \<Rightarrow> load_emission_factors None | Some f \<Rightarrow> f)"
  from assms obtain r1 where r1: "process_items rt ef ''scope1'' (scope1 sd) empty_results = Inr r1"
    unfolding calculate_emissions_def Let_def ef_def[symmetric]
    by (cases "process_items rt ef ''scope1'' (scope1 sd) empty_results") simp_all
  from assms r1 obtain r2 where r2: "process_items rt ef ''scope2'' (scope2 sd) r1 = Inr r2"
    unfolding calculate_emissions_def Let_def ef_def[symmetric]
    by (cases "process_items rt ef ''scope2'' (scope2 sd) r1") simp_all
  from assms r1 r2 have "process_items rt ef ''scope3'' (scope3 sd) r2 = Inr res"
    unfolding calculate_emissions_def Let_def ef_def[symmetric] by simp
  with r1 r2 that show ?thesis by blast
qed

lemma line_items_record_item:
  "line_items (record_item key it e res)
     = line_items res @ [\<lparr> line_scope = key, line_type = item_type it, line_data = data it,
                            emissions = e, line_original_row = original_row it \<rparr>]"
  unfolding record_item_def by simp

lemma process_items_lines:
  "process_items rt ef key items res = Inr res' \<Longrightarrow>
   map (\<lambda>l. (line_scope l, line_original_row l)) (line_items res')
     = map (\<lambda>l. (line_scope l, line_original_row l)) (line_items res)
       @ map (\<lambda>it. (key, original_row it)) items"
proof (induction items arbitrary: res)
  case Nil
  then show ?case by simp
next
  case (Cons it items)
  from Cons.prems obtain e where e: "item_emissions rt ef it = Inr e"
    and rest: "process_items rt ef key items (record_item key it e res) = Inr res'"
    by (cases "item_emissions rt ef it") simp_all
  from Cons.IH[OF rest] show ?case by (simp add: line_items_record_item)
qed

lemma calculate_emissions_lines:
  assumes "calculate_emissions rt sd emission_factors = Inr res"
  shows "map (\<lambda>l. (line_scope l, line_original_row l)) (line_items res)
     = map (\<lambda>it. (''scope1'', original_row it)) (scope1 sd)
       @ map (\<lambda>it. (''scope2'', original_row it)) (scope2 sd)
       @ map (\<lambda>it. (''scope3'', original_row it)) (scope3 sd)"
proof -
  from calculate_emissions_steps[OF assms] obtain ef r1 r2 where
    s: "process_items rt ef ''scope1'' (scope1 sd) empty_results = Inr r1"
       "process_items rt ef ''scope2'' (scope2 sd) r1 = Inr r2"
       "process_items rt ef ''scope3'' (scope3 sd) r2 = Inr res" by blast
  have e: "line_items empty_results = []" by (simp add: empty_results_def)
  from process_items_lines[OF s(1)] process_items_lines[OF s(2)] process_items_lines[OF s(3)] e
  show ?thesis by simp
qed

lemma emitted_scope_cases:
  obtains (drop) "map_row rt df cms row = Inr None" "emitted_scope rt df cms row = None"
    | (err) e where "map_row rt df cms row = Inl e"
    | (emit) n it where "map_row rt df cms row = Inr (Some (n, it))"
        "emitted_scope rt df cms row = Some n" "n \<in> {1, 2, 3}" "original_row it = to_dict df row"
proof (cases "map_row rt df cms row")
  case (Inl e)
  then show ?thesis by (rule err)
next
  case (Inr r)
  show ?thesis
  proof (cases r)
    case None
    with Inr show ?thesis by (intro drop) (simp_all add: emitted_scope_def)
  next
    case (Some p)
    obtain n it where p: "p = (n, it)" by (cases p)
    from Inr Some p have m: "map_row rt df cms row = Inr (Some (n, it))" by simp
    from map_row_emitted[OF m] have n: "n \<in> {1, 2, 3}" by simp
    from map_row_item[OF m] have o: "original_row it = to_dict df row" by auto
    from m have s: "emitted_scope rt df cms row = Some n" by (simp add: emitted_scope_def)
    from m s n o show ?thesis by (rule emit)
  qed
qed

lemma map_rows_scopes:
  "map_rows rt df cms rs sd0 = Inr sd \<Longrightarrow>
   map original_row (scope1 sd)
     = map original_row (scope1 sd0)
       @ map (to_dict df) (filter (\<lambda>row. emitted_scope rt df cms row = Some 1) rs)
   \<and> map original_row (scope2 sd)
     = map original_row (scope2 sd0)
       @ map (to_dict df) (filter (\<lambda>row. emitted_scope rt df cms row = Some 2) rs)
   \<and> map original_row (scope3 sd)
     = map original_row (scope3 sd0)
       @ map (to_dict df) (filter (\<lambda>row. emitted_scope rt df cms row = Some 3) rs)"
proof (induction rs arbitrary: sd0)
  case Nil
  then show ?case by simp
next
  case (Cons row rs)
  show ?case
  proof (cases rule: emitted_scope_cases[of rt df cms row])
    case drop
    with Cons.prems have "map_rows rt df cms rs sd0 = Inr sd" by simp
    from Cons.IH[OF this] drop(2) show ?thesis by simp
  next
    case (err e)
    with Cons.prems show ?thesis by simp
  next
    case (emit n it)
    with Cons.prems have r: "map_rows rt df cms rs (append_item n it sd0) = Inr sd" by simp
    from emit(3) consider "n = 1" | "n = 2" | "n = 3" by auto
    then show ?thesis
    proof cases
      case 1
      with Cons.IH[OF r] emit(2,4) show ?thesis by (simp add: append_item_def)
    next
      case 2
      with Cons.IH[OF r] emit(2,4) show ?thesis by (simp add: append_item_def)
    next
      case 3
      with Cons.IH[OF r] emit(2,4) show ?thesis by (simp add: append_item_def)
    qed
  qed
qed

text \<open>
  Claim C6, as the code has it. The line items of a report are grouped by scope: the lines
  of the rows mapped to scope 1 come first, then those of scope 2, then those of scope 3,
  and within one scope the lines follow the order of the input rows.
\<close>

theorem line_items_grouped_by_scope:
  assumes "map_to_emission_categories rt df cms = Inr sd"
    and "calculate_emissions rt sd emission_factors = Inr res"
  shows "map (\<lambda>l. (line_scope l, line_original_row l)) (line_items res)
     = map (\<lambda>row. (''scope1'', to_dict df row))
         (filter (\<lambda>row. emitted_scope rt df cms row = Some 1) (rows df))
       @ map (\<lambda>row. (''scope2'', to_dict df row))
           (filter (\<lambda>row. emitted_scope rt df cms row = Some 2) (rows df))
       @ map (\<lambda>row. (''scope3'', to_dict df row))
           (filter (\<lambda>row. emitted_scope rt df cms row = Some 3) (rows df))"
proof -
  from map_rows_scopes[OF assms(1)[unfolded map_to_emission_categories_def]]
  have s: "map original_row (scope1 sd)
             = map (to_dict df) (filter (\<lambda>row. emitted_scope rt df cms row = Some 1) (rows df))"
          "map original_row (scope2 sd)
             = map (to_dict df) (filter (\<lambda>row. emitted_scope rt df cms row = Some 2) (rows df))"
          "map original_row (scope3 sd)
             = map (to_dict df) (filter (\<lambda>row. emitted_scope rt df cms row = Some 3) (rows df))"
    by simp_all
  have m: "\<And>key (xs :: item list). map (\<lambda>it. (key, original_row it)) xs
              = map (Pair key) (map original_row xs)"
    by (simp add: comp_def)
  have m': "\<And>key (xs :: (string \<Rightarrow> cell) list). map (\<lambda>row. (key, to_dict df row)) xs
              = map (Pair key) (map (to_dict df) xs)"
    by (simp add: comp_def)
  show ?thesis
    unfolding calculate_emissions_lines[OF assms(2)] m m' s ..
qed

theorem line_items_grouped_by_scope_witness:
  "map_to_emission_categories plain_rt mixed_table scope_text_mappings = Inr mixed_structured
   \<and> calculate_emissions plain_rt mixed_structured None = Inr mixed_report
   \<and> map (\<lambda>l. (line_scope l, line_original_row l)) (line_items mixed_report)
     = [(''scope1'', to_dict mixed_table diesel_row),
        (''scope2'', to_dict mixed_table electricity_row),
        (''scope3'', to_dict mixed_table flight_row)]"
proof -
  have h1: "map_to_emission_categories plain_rt mixed_table scope_text_mappings = Inr mixed_structured"
    by code_simp
  have h2: "calculate_emissions plain_rt mixed_structured None = Inr mixed_report"
    by code_simp
  have e: "map (\<lambda>row. (''scope1'', to_dict mixed_table row))
         (filter (\<lambda>row. emitted_scope plain_rt mixed_table scope_text_mappings row = Some 1)
            (rows mixed_table))
       @ map (\<lambda>row. (''scope2'', to_dict mixed_table row))
           (filter (\<lambda>row. emitted_scope plain_rt mixed_table scope_text_mappings row = Some 2)
              (rows mixed_table))
       @ map (\<lambda>row. (''scope3'', to_dict mixed_table row))
           (filter (\<lambda>row. emitted_scope plain_rt mixed_table scope_text_mappings row = Some 3)
              (rows mixed_table))
     = [(''scope1'', to_dict mixed_table diesel_row),
        (''scope2'', to_dict mixed_table electricity_row),
        (''scope3'', to_dict mixed_table flight_row)]"
    by code_simp
  from line_items_grouped_by_scope[OF h1 h2] e h1 h2 show ?thesis by simp
qed

text \<open>
  The claim as the specification words it fails: the electricity row comes before the
  diesel row in the table, and both yield a line, but the line of the diesel row comes
  first in the report.
\<close>

theorem row_order_counterexample:
  "map (to_dict mixed_table) (rows mixed_table)
      = [to_dict mixed_table electricity_row, to_dict mixed_table diesel_row,
         to_dict mixed_table flight_row]
   \<and> map_sum id (map line_original_row \<circ> line_items)
        (map_and_calculate plain_rt mixed_table scope_text_mappings None)
      = Inr [to_dict mixed_table diesel_row, to_dict mixed_table electricity_row,
             to_dict mixed_table flight_row]
   \<and> to_dict mixed_table diesel_row \<noteq> to_dict mixed_table electricity_row"
  by code_simp

section \<open>The calculator: the factor of a record\<close>

lemma find_factor_first:
  "\<forall>(n, x) \<in> set pre. \<not> contains (lower t) (lower n) \<Longrightarrow> contains (lower t) (lower nm) \<Longrightarrow>
   find_factor t (pre @ (nm, f) # post) = Some f"
  by (induction pre) auto

lemma find_factor_none:
  "\<forall>(n, x) \<in> set table. \<not> contains (lower t) (lower n) \<Longrightarrow> find_factor t table = None"
  by (induction table) auto

lemma find_type_some:
  "find_type kws d = Some v \<Longrightarrow> any_in kws (lower v) \<and> (\<exists>key. (key, Str v) \<in> set d)"
  by (induction kws d rule: find_type.induct) (auto split: if_splits)

lemma find_type_nonempty:
  assumes "find_type kws d = Some v" and "[] \<notin> set kws"
  shows "v \<noteq> []"
proof
  assume "v = []"
  with find_type_some[OF assms(1)] have "any_in kws []" by (simp add: lower_def)
  then obtain k where "k \<in> set kws" "contains k []"
    unfolding any_in_def list_ex_iff by blast
  with assms(2) show False by auto
qed

lemma branch_factor_found:
  "find_type kws d = Some v \<Longrightarrow> v \<noteq> [] \<Longrightarrow>
   branch_factor table kws dn dv d =
     (case find_factor v table of
        Some f \<Rightarrow> f
      | None \<Rightarrow> (case map_of table dn of Some f \<Rightarrow> f | None \<Rightarrow> dv))"
  by (simp add: branch_factor_def)

lemma branch_factor_default:
  "find_type kws d = None \<Longrightarrow>
   branch_factor table kws dn dv d =
     (case find_factor dn table of
        Some f \<Rightarrow> f
      | None \<Rightarrow> (case map_of table dn of Some f \<Rightarrow> f | None \<Rightarrow> dv))"
  by (simp add: branch_factor_def)

lemma branch_factor_first:
  assumes "find_type kws d = Some v" and "[] \<notin> set kws"
    and "\<forall>(n, x) \<in> set pre. \<not> contains (lower v) (lower n)" and "contains (lower v) (lower nm)"
  shows "branch_factor (pre @ (nm, f) # post) kws dn dv d = f"
  using branch_factor_found[OF assms(1) find_type_nonempty[OF assms(1,2)]]
    find_factor_first[OF assms(3,4)] by simp

lemma branch_factor_unmatched:
  assumes "find_type kws d = Some v" and "[] \<notin> set kws"
    and "\<forall>(n, x) \<in> set table. \<not> contains (lower v) (lower n)"
  shows "branch_factor table kws dn dv d = (case map_of table dn of Some f \<Rightarrow> f | None \<Rightarrow> dv)"
  using branch_factor_found[OF assms(1) find_type_nonempty[OF assms(1,2)]]
    find_factor_none[OF assms(3)] by simp

lemma strings_of_mem: "(key, Str v) \<in> set d \<Longrightarrow> v \<in> set (strings_of d)"
  unfolding strings_of_def by force

lemma branch_factor_texts:
  assumes d: "set (strings_of d) \<subseteq> set texts"
    and t: "\<forall>sel \<in> set texts. find_factor sel table = None"
    and k: "[] \<notin> set kws"
    and r: "map_of table dn = Some r" "find_factor dn table = Some r"
  shows "branch_factor table kws dn dv d = r"
proof (cases "find_type kws d")
  case None
  then show ?thesis using r by (simp add: branch_factor_default)
next
  case (Some v)
  from find_type_some[OF Some] d have "v \<in> set texts" using strings_of_mem by blast
  with t have "find_factor v table = None" by simp
  with branch_factor_found[OF Some find_type_nonempty[OF Some k]] r show ?thesis by simp
qed

lemma item_emissions_transport:
  assumes "item_type it = ''transport''" and "map_of (data it) ''amount'' = Some v"
    and "py_float rt v = Inr a" and "map_of ef ''transport'' = Some table"
  shows "item_emissions rt ef it
    = Inr (a * branch_factor table [''car'', ''bus'', ''train'', ''flight'', ''plane'']
                 ''Car (Petrol/Gasoline)'' 0.19 (data it))"
  using assms unfolding item_emissions_def Let_def branch_emissions_def by simp

lemma item_emissions_refrigerant:
  assumes "item_type it = ''refrigerant''" and "map_of (data it) ''amount'' = Some v"
    and "py_float rt v = Inr a" and "map_of ef ''refrigerant'' = Some table"
  shows "item_emissions rt ef it
    = Inr (a * branch_factor table [''r-'', ''hfc'', ''refrigerant''] ''R-410A'' 2088 (data it) / 1000)"
  using assms unfolding item_emissions_def Let_def branch_emissions_def by simp

text \<open>
  Claim C4, as the code has it. For a refrigerant record whose amount entry converts to
  \<open>a\<close>, the calculator returns \<open>a\<close> times the factor of the record, divided by 1000.
  The factor is that of the first catalog name that contains, in lower case, the
  refrigerant text found in the record; that of \<open>R-410A\<close> (2088 if the catalog has no
  such name) when no name contains the text; and what the same search gives for
  \<open>R-410A\<close> when the record holds no refrigerant text. Under the default catalog the
  text \<open>R-134a\<close> gives 1430, and the text \<open>Refrigerant R-134a\<close>, which no name contains,
  gives 2088. A row of 1 kg whose only text beside the unit is \<open>R-134a\<close> gives 1.43; the
  row of scenario S4 gives 5.22, and every record whose strings are texts of that row has
  the factor 2088.
\<close>

theorem refrigerant_emissions:
  "(item_type it = ''refrigerant'' \<and> map_of (data it) ''amount'' = Some v
      \<and> py_float rt v = Inr a \<and> map_of ef ''refrigerant'' = Some table
    \<longrightarrow> item_emissions rt ef it
          = Inr (a * branch_factor table [''r-'', ''hfc'', ''refrigerant''] ''R-410A'' 2088 (data it)
                   / 1000))
   \<and> (find_type [''r-'', ''hfc'', ''refrigerant''] d = Some sel
        \<and> (\<forall>(n, x) \<in> set pre. \<not> contains (lower sel) (lower n))
        \<and> contains (lower sel) (lower nm)
      \<longrightarrow> branch_factor (pre @ (nm, g) # post) [''r-'', ''hfc'', ''refrigerant''] ''R-410A'' 2088 d
            = g)
   \<and> (find_type [''r-'', ''hfc'', ''refrigerant''] d = Some sel
        \<and> (\<forall>(n, x) \<in> set table. \<not> contains (lower sel) (lower n))
      \<longrightarrow> branch_factor table [''r-'', ''hfc'', ''refrigerant''] ''R-410A'' 2088 d
            = (case map_of table ''R-410A'' of Some g \<Rightarrow> g | None \<Rightarrow> 2088))
   \<and> (find_type [''r-'', ''hfc'', ''refrigerant''] d = None
      \<longrightarrow> branch_factor table [''r-'', ''hfc'', ''refrigerant''] ''R-410A'' 2088 d
            = (case find_factor ''R-410A'' table of
                 Some g \<Rightarrow> g
               | None \<Rightarrow> (case map_of table ''R-410A'' of Some g \<Rightarrow> g | None \<Rightarrow> 2088)))
   \<and> (find_type [''r-'', ''hfc'', ''refrigerant''] d = Some ''R-134a''
      \<longrightarrow> branch_factor (the (map_of default_factors ''refrigerant''))
            [''r-'', ''hfc'', ''refrigerant''] ''R-410A'' 2088 d = 1430)
   \<and> (find_type [''r-'', ''hfc'', ''refrigerant''] d = Some ''Refrigerant R-134a''
      \<longrightarrow> branch_factor (the (map_of default_factors ''refrigerant''))
            [''r-'', ''hfc'', ''refrigerant''] ''R-410A'' 2088 d = 2088)
   \<and> map_sum id (map (\<lambda>l. (line_scope l, line_type l, emissions l)) \<circ> line_items)
        (smart_import plain_rt r134a_table) = Inr [(''scope1'', ''refrigerant'', 1.43)]
   \<and> map_sum id (map (\<lambda>l. (line_scope l, line_type l, emissions l)) \<circ> line_items)
        (smart_import plain_rt r410a_table) = Inr [(''scope1'', ''refrigerant'', 5.22)]
   \<and> (set (strings_of d) \<subseteq> set (row_texts r410a_table r410a_row)
      \<longrightarrow> branch_factor (the (map_of default_factors ''refrigerant''))
            [''r-'', ''hfc'', ''refrigerant''] ''R-410A'' 2088 d = 2088)"
proof -
  have ne: "[] \<notin> set [''r-'', ''hfc'', ''refrigerant'']" by simp
  have c1: "item_type it = ''refrigerant'' \<and> map_of (data it) ''amount'' = Some v
      \<and> py_float rt v = Inr a \<and> map_of ef ''refrigerant'' = Some table
    \<longrightarrow> item_emissions rt ef it
          = Inr (a * branch_factor table [''r-'', ''hfc'', ''refrigerant''] ''R-410A'' 2088 (data it)
                   / 1000)"
    using item_emissions_refrigerant[of it v rt a ef table] by blast
  have c2: "find_type [''r-'', ''hfc'', ''refrigerant''] d = Some sel
        \<and> (\<forall>(n, x) \<in> set pre. \<not> contains (lower sel) (lower n))
        \<and> contains (lower sel) (lower nm)
      \<longrightarrow> branch_factor (pre @ (nm, g) # post) [''r-'', ''hfc'', ''refrigerant''] ''R-410A'' 2088 d
            = g"
    using branch_factor_first[OF _ ne, of d sel pre nm g post] by blast
  have c3: "find_type [''r-'', ''hfc'', ''refrigerant''] d = Some sel
        \<and> (\<forall>(n, x) \<in> set table. \<not> contains (lower sel) (lower n))
      \<longrightarrow> branch_factor table [''r-'', ''hfc'', ''refrigerant''] ''R-410A'' 2088 d
            = (case map_of table ''R-410A'' of Some g \<Rightarrow> g | None \<Rightarrow> 2088)"
    using branch_factor_unmatched[OF _ ne, of d sel table] by blast
  have c4: "find_type [''r-'', ''hfc'', ''refrigerant''] d = None
      \<longrightarrow> branch_factor table [''r-'', ''hfc'', ''refrigerant''] ''R-410A'' 2088 d
            = (case find_factor ''R-410A'' table of
                 Some g \<Rightarrow> g
               | None \<Rightarrow> (case map_of table ''R-410A'' of Some g \<Rightarrow> g | None \<Rightarrow> 2088))"
    using branch_factor_default by blast
  have f5: "find_factor ''R-134a'' (the (map_of default_factors ''refrigerant'')) = Some 1430"
    by code_simp
  have c5: "find_type [''r-'', ''hfc'', ''refrigerant''] d = Some ''R-134a''
      \<longrightarrow> branch_factor (the (map_of default_factors ''refrigerant''))
            [''r-'', ''hfc'', ''refrigerant''] ''R-410A'' 2088 d = 1430"
    using branch_factor_found[of "[''r-'', ''hfc'', ''refrigerant'']" d "''R-134a''"] f5 by simp
  have f6: "find_factor ''Refrigerant R-134a'' (the (map_of default_factors ''refrigerant'')) = None"
      "map_of (the (map_of default_factors ''refrigerant'')) ''R-410A'' = Some 2088"
    by code_simp+
  have c6: "find_type [''r-'', ''hfc'', ''refrigerant''] d = Some ''Refrigerant R-134a''
      \<longrightarrow> branch_factor (the (map_of default_factors ''refrigerant''))
            [''r-'', ''hfc'', ''refrigerant''] ''R-410A'' 2088 d = 2088"
    using branch_factor_found[of "[''r-'', ''hfc'', ''refrigerant'']" d "''Refrigerant R-134a''"] f6
    by simp
  have i1: "map_sum id (map (\<lambda>l. (line_scope l, line_type l, emissions l)) \<circ> line_items)
        (smart_import plain_rt r134a_table) = Inr [(''scope1'', ''refrigerant'', 1.43)]"
    by code_simp
  have i2: "map_sum id (map (\<lambda>l. (line_scope l, line_type l, emissions l)) \<circ> line_items)
        (smart_import plain_rt r410a_table) = Inr [(''scope1'', ''refrigerant'', 5.22)]"
    by code_simp
  have t: "\<forall>sel \<in> set (row_texts r410a_table r410a_row).
             find_factor sel (the (map_of default_factors ''refrigerant'')) = None"
    by code_simp
  have r: "map_of (the (map_of default_factors ''refrigerant'')) ''R-410A'' = Some 2088"
      "find_factor ''R-410A'' (the (map_of default_factors ''refrigerant'')) = Some 2088"
    by code_simp+
  have c9: "set (strings_of d) \<subseteq> set (row_texts r410a_table r410a_row)
      \<longrightarrow> branch_factor (the (map_of default_factors ''refrigerant''))
            [''r-'', ''hfc'', ''refrigerant''] ''R-410A'' 2088 d = 2088"
    using branch_factor_texts[OF _ t ne r] by blast
  from c1 c2 c3 c4 c5 c6 i1 i2 c9 show ?thesis by (intro conjI)
qed

theorem refrigerant_emissions_witness:
  "map_to_emission_categories plain_rt r134a_table
       (detect_column_types no_ai plain_rt r134a_table False)
     = Inr \<lparr> scope1 = [r134a_item], scope2 = [], scope3 = [] \<rparr>
   \<and> map_to_emission_categories plain_rt r410a_table
       (detect_column_types no_ai plain_rt r410a_table False)
     = Inr \<lparr> scope1 = [r410a_item], scope2 = [], scope3 = [] \<rparr>
   \<and> item_emissions plain_rt default_factors r134a_item = Inr 1.43
   \<and> item_emissions plain_rt default_factors r410a_item = Inr 5.22
   \<and> branch_factor (the (map_of default_factors ''refrigerant''))
        [''r-'', ''hfc'', ''refrigerant''] ''R-410A'' 2088 (data r134a_item) = 1430
   \<and> branch_factor (the (map_of default_factors ''refrigerant''))
        [''r-'', ''hfc'', ''refrigerant''] ''R-410A'' 2088
        [(''category'', Str ''Refrigerant R-134a'')] = 2088
   \<and> branch_factor (the (map_of default_factors ''refrigerant''))
        [''r-'', ''hfc'', ''refrigerant''] ''R-410A'' 2088 (data r410a_item) = 2088"
proof -
  have m1: "map_to_emission_categories plain_rt r134a_table
       (detect_column_types no_ai plain_rt r134a_table False)
     = Inr \<lparr> scope1 = [r134a_item], scope2 = [], scope3 = [] \<rparr>"
    by code_simp
  have m2: "map_to_emission_categories plain_rt r410a_table
       (detect_column_types no_ai plain_rt r410a_table False)
     = Inr \<lparr> scope1 = [r410a_item], scope2 = [], scope3 = [] \<rparr>"
    by code_simp
  have tab: "the (map_of default_factors ''refrigerant'')
      = [(''R-410A'', 2088), (''R-22'', 1810)] @ (''R-134a'', 1430)
        # [(''R-404A'', 3922), (''R-407C'', 1774), (''R-32'', 675)]"
    by (simp add: default_factors_def)
  have dflt: "map_of (the (map_of default_factors ''refrigerant'')) ''R-410A'' = Some 2088"
      "find_factor ''R-410A'' (the (map_of default_factors ''refrigerant'')) = Some 2088"
    by code_simp+
  have h5: "find_type [''r-'', ''hfc'', ''refrigerant''] (data r134a_item) = Some ''R-134a''"
    by code_simp
  note t5 = refrigerant_emissions[where d = "data r134a_item",
      THEN conjunct2, THEN conjunct2, THEN conjunct2, THEN conjunct2, THEN conjunct1]
  from t5 h5 have w5: "branch_factor (the (map_of default_factors ''refrigerant''))
        [''r-'', ''hfc'', ''refrigerant''] ''R-410A'' 2088 (data r134a_item) = 1430"
    by (rule mp)
  have h1: "item_type r134a_item = ''refrigerant'' \<and> map_of (data r134a_item) ''amount'' = Some (Num 1)
      \<and> py_float plain_rt (Num 1) = Inr 1
      \<and> map_of default_factors ''refrigerant'' = Some (the (map_of default_factors ''refrigerant''))"
    by code_simp
  note t1 = refrigerant_emissions[where it = r134a_item and v = "Num 1" and rt = plain_rt
      and a = 1 and ef = default_factors and table = "the (map_of default_factors ''refrigerant'')",
      THEN conjunct1]
  from t1 h1 have "item_emissions plain_rt default_factors r134a_item
      = Inr (1 * branch_factor (the (map_of default_factors ''refrigerant''))
                   [''r-'', ''hfc'', ''refrigerant''] ''R-410A'' 2088 (data r134a_item) / 1000)"
    by (rule mp)
  then have w1: "item_emissions plain_rt default_factors r134a_item = Inr 1.43"
    unfolding w5 by simp
  have h2: "find_type [''r-'', ''hfc'', ''refrigerant''] (data r134a_item) = Some ''R-134a''
      \<and> (\<forall>(n, x) \<in> set [(''R-410A'', 2088 :: real), (''R-22'', 1810)].
            \<not> contains (lower ''R-134a'') (lower n))
      \<and> contains (lower ''R-134a'') (lower ''R-134a'')"
    by code_simp
  note t2 = refrigerant_emissions[where d = "data r134a_item" and sel = "''R-134a''"
      and pre = "[(''R-410A'', 2088), (''R-22'', 1810)]" and nm = "''R-134a''" and g = 1430
      and post = "[(''R-404A'', 3922), (''R-407C'', 1774), (''R-32'', 675)]",
      THEN conjunct2, THEN conjunct1]
  from t2 h2 have w2: "branch_factor (the (map_of default_factors ''refrigerant''))
        [''r-'', ''hfc'', ''refrigerant''] ''R-410A'' 2088 (data r134a_item) = 1430"
    unfolding tab by (rule mp)
  have h3: "find_type [''r-'', ''hfc'', ''refrigerant''] [(''category'', Str ''Refrigerant R-134a'')]
        = Some ''Refrigerant R-134a''
      \<and> (\<forall>(n, x) \<in> set (the (map_of default_factors ''refrigerant'')).
            \<not> contains (lower ''Refrigerant R-134a'') (lower n))"
    by code_simp
  note t3 = refrigerant_emissions[where d = "[(''category'', Str ''Refrigerant R-134a'')]"
      and sel = "''Refrigerant R-134a''" and table = "the (map_of default_factors ''refrigerant'')",
      THEN conjunct2, THEN conjunct2, THEN conjunct1]
  from t3 h3 have "branch_factor (the (map_of default_factors ''refrigerant''))
        [''r-'', ''hfc'', ''refrigerant''] ''R-410A'' 2088 [(''category'', Str ''Refrigerant R-134a'')]
      = (case map_of (the (map_of default_factors ''refrigerant'')) ''R-410A'' of
           Some g \<Rightarrow> g | None \<Rightarrow> 2088)"
    by (rule mp)
  then have w3: "branch_factor (the (map_of default_factors ''refrigerant''))
        [''r-'', ''hfc'', ''refrigerant''] ''R-410A'' 2088 [(''category'', Str ''Refrigerant R-134a'')]
      = 2088"
    unfolding dflt by simp
  have h4: "find_type [''r-'', ''hfc'', ''refrigerant''] (data r410a_item) = None"
    by code_simp
  note t4 = refrigerant_emissions[where d = "data r410a_item"
      and table = "the (map_of default_factors ''refrigerant'')",
      THEN conjunct2, THEN conjunct2, THEN conjunct2, THEN conjunct1]
  from t4 h4 have "branch_factor (the (map_of default_factors ''refrigerant''))
        [''r-'', ''hfc'', ''refrigerant''] ''R-410A'' 2088 (data r410a_item)
      = (case find_factor ''R-410A'' (the (map_of default_factors ''refrigerant'')) of
           Some g \<Rightarrow> g
         | None \<Rightarrow> (case map_of (the (map_of default_factors ''refrigerant'')) ''R-410A'' of
                       Some g \<Rightarrow> g | None \<Rightarrow> 2088))"
    by (rule mp)
  then have w4: "branch_factor (the (map_of default_factors ''refrigerant''))
        [''r-'', ''hfc'', ''refrigerant''] ''R-410A'' 2088 (data r410a_item) = 2088"
    unfolding dflt by simp
  have h6: "find_type [''r-'', ''hfc'', ''refrigerant''] [(''category'', Str ''Refrigerant R-134a'')]
        = Some ''Refrigerant R-134a''"
    by code_simp
  note t6 = refrigerant_emissions[where d = "[(''category'', Str ''Refrigerant R-134a'')]",
      THEN conjunct2, THEN conjunct2, THEN conjunct2, THEN conjunct2, THEN conjunct2,
      THEN conjunct1]
  from t6 h6 have w6: "branch_factor (the (map_of default_factors ''refrigerant''))
        [''r-'', ''hfc'', ''refrigerant''] ''R-410A'' 2088 [(''category'', Str ''Refrigerant R-134a'')]
      = 2088"
    by (rule mp)
  have h9: "set (strings_of (data r410a_item)) \<subseteq> set (row_texts r410a_table r410a_row)"
    by code_simp
  note t9 = refrigerant_emissions[where d = "data r410a_item",
      THEN conjunct2, THEN conjunct2, THEN conjunct2, THEN conjunct2, THEN conjunct2,
      THEN conjunct2, THEN conjunct2, THEN conjunct2]
  from t9 h9 have w9: "branch_factor (the (map_of default_factors ''refrigerant''))
        [''r-'', ''hfc'', ''refrigerant''] ''R-410A'' 2088 (data r410a_item) = 2088"
    by (rule mp)
  have h1b: "item_type r410a_item = ''refrigerant''
      \<and> map_of (data r410a_item) ''amount'' = Some (Num 2.5)
      \<and> py_float plain_rt (Num 2.5) = Inr 2.5
      \<and> map_of default_factors ''refrigerant'' = Some (the (map_of default_factors ''refrigerant''))"
    by code_simp
  note t1b = refrigerant_emissions[where it = r410a_item and v = "Num 2.5" and rt = plain_rt
      and a = "2.5" and ef = default_factors and table = "the (map_of default_factors ''refrigerant'')",
      THEN conjunct1]
  from t1b h1b have "item_emissions plain_rt default_factors r410a_item
      = Inr (2.5 * branch_factor (the (map_of default_factors ''refrigerant''))
                   [''r-'', ''hfc'', ''refrigerant''] ''R-410A'' 2088 (data r410a_item) / 1000)"
    by (rule mp)
  then have w1b: "item_emissions plain_rt default_factors r410a_item = Inr 5.22"
    unfolding w9 by simp
  from m1 m2 w1 w1b w2 w3 w4 show ?thesis by (intro conjI)
qed

text \<open>
  The claim as the specification words it fails: one kilogram of R-134a, written as
  scenario S4 writes its leak, gives 2.088 and not 1.43; neither text that the record can
  carry as its category is inside a catalog name.
\<close>

theorem refrigerant_leak_counterexample:
  "map_sum id (map (\<lambda>l. (line_scope l, line_type l, emissions l)) \<circ> line_items)
        (smart_import plain_rt r134a_leak_table) = Inr [(''scope1'', ''refrigerant'', 2.088)]
   \<and> map_sum id (map emissions \<circ> line_items) (smart_import plain_rt r134a_leak_table) \<noteq> Inr [1.43]
   \<and> find_factor ''Refrigerant R-134a'' (the (map_of default_factors ''refrigerant'')) = None
   \<and> find_factor ''Scope 1'' (the (map_of default_factors ''refrigerant'')) = None"
  by code_simp

text \<open>
  Claim C1, as the code has it. The row of scenario S3 yields exactly one line, of kind
  transport on scope 3, with emissions 665. For a transport record whose amount entry
  converts to \<open>a\<close>, the emissions are \<open>a\<close> times the factor of the record: that of the
  first catalog name that contains, in lower case, the transport text found in the record;
  that of \<open>Car (Petrol/Gasoline)\<close> (0.19 if the catalog has no such name) when no name
  contains the text; and what the same search gives for \<open>Car (Petrol/Gasoline)\<close> when the
  record holds no transport text. No text of the row of scenario S3 is inside a name of
  the default transport table, so every record whose strings are texts of that row has the
  factor 0.19.
\<close>

theorem long_haul_flight_line:
  "map_sum id (map (\<lambda>l. (line_scope l, line_type l, emissions l)) \<circ> line_items)
        (smart_import plain_rt long_haul_table) = Inr [(''scope3'', ''transport'', 665)]
   \<and> (item_type it = ''transport'' \<and> map_of (data it) ''amount'' = Some v
        \<and> py_float rt v = Inr a \<and> map_of ef ''transport'' = Some table
      \<longrightarrow> item_emissions rt ef it
            = Inr (a * branch_factor table [''car'', ''bus'', ''train'', ''flight'', ''plane'']
                         ''Car (Petrol/Gasoline)'' 0.19 (data it)))
   \<and> (find_type [''car'', ''bus'', ''train'', ''flight'', ''plane''] d = Some sel
        \<and> (\<forall>(n, x) \<in> set pre. \<not> contains (lower sel) (lower n))
        \<and> contains (lower sel) (lower nm)
      \<longrightarrow> branch_factor (pre @ (nm, f) # post) [''car'', ''bus'', ''train'', ''flight'', ''plane'']
            ''Car (Petrol/Gasoline)'' 0.19 d = f)
   \<and> (find_type [''car'', ''bus'', ''train'', ''flight'', ''plane''] d = Some sel
        \<and> (\<forall>(n, x) \<in> set table. \<not> contains (lower sel) (lower n))
      \<longrightarrow> branch_factor table [''car'', ''bus'', ''train'', ''flight'', ''plane'']
            ''Car (Petrol/Gasoline)'' 0.19 d
            = (case map_of table ''Car (Petrol/Gasoline)'' of Some f \<Rightarrow> f | None \<Rightarrow> 0.19))
   \<and> (find_type [''car'', ''bus'', ''train'', ''flight'', ''plane''] d = None
      \<longrightarrow> branch_factor table [''car'', ''bus'', ''train'', ''flight'', ''plane'']
            ''Car (Petrol/Gasoline)'' 0.19 d
            = (case find_factor ''Car (Petrol/Gasoline)'' table of
                 Some f \<Rightarrow> f
               | None \<Rightarrow> (case map_of table ''Car (Petrol/Gasoline)'' of
                             Some f \<Rightarrow> f | None \<Rightarrow> 0.19)))
   \<and> (set (strings_of d) \<subseteq> set (row_texts long_haul_table long_haul_row)
      \<longrightarrow> branch_factor (the (map_of default_factors ''transport''))
            [''car'', ''bus'', ''train'', ''flight'', ''plane''] ''Car (Petrol/Gasoline)'' 0.19 d
            = 0.19)"
proof -
  have ne: "[] \<notin> set [''car'', ''bus'', ''train'', ''flight'', ''plane'']" by simp
  have c1: "map_sum id (map (\<lambda>l. (line_scope l, line_type l, emissions l)) \<circ> line_items)
        (smart_import plain_rt long_haul_table) = Inr [(''scope3'', ''transport'', 665)]"
    by code_simp
  have c2: "item_type it = ''transport'' \<and> map_of (data it) ''amount'' = Some v
        \<and> py_float rt v = Inr a \<and> map_of ef ''transport'' = Some table
      \<longrightarrow> item_emissions rt ef it
            = Inr (a * branch_factor table [''car'', ''bus'', ''train'', ''flight'', ''plane'']
                         ''Car (Petrol/Gasoline)'' 0.19 (data it))"
    using item_emissions_transport[of it v rt a ef table] by blast
  have c3: "find_type [''car'', ''bus'', ''train'', ''flight'', ''plane''] d = Some sel
        \<and> (\<forall>(n, x) \<in> set pre. \<not> contains (lower sel) (lower n))
        \<and> contains (lower sel) (lower nm)
      \<longrightarrow> branch_factor (pre @ (nm, f) # post) [''car'', ''bus'', ''train'', ''flight'', ''plane'']
            ''Car (Petrol/Gasoline)'' 0.19 d = f"
    using branch_factor_first[OF _ ne, of d sel pre nm f post] by blast
  have c4: "find_type [''car'', ''bus'', ''train'', ''flight'', ''plane''] d = Some sel
        \<and> (\<forall>(n, x) \<in> set table. \<not> contains (lower sel) (lower n))
      \<longrightarrow> branch_factor table [''car'', ''bus'', ''train'', ''flight'', ''plane'']
            ''Car (Petrol/Gasoline)'' 0.19 d
            = (case map_of table ''Car (Petrol/Gasoline)'' of Some f \<Rightarrow> f | None \<Rightarrow> 0.19)"
    using branch_factor_unmatched[OF _ ne, of d sel table] by blast
  have c5: "find_type [''car'', ''bus'', ''train'', ''flight'', ''plane''] d = None
      \<longrightarrow> branch_factor table [''car'', ''bus'', ''train'', ''flight'', ''plane'']
            ''Car (Petrol/Gasoline)'' 0.19 d
            = (case find_factor ''Car (Petrol/Gasoline)'' table of
                 Some f \<Rightarrow> f
               | None \<Rightarrow> (case map_of table ''Car (Petrol/Gasoline)'' of
                             Some f \<Rightarrow> f | None \<Rightarrow> 0.19))"
    using branch_factor_default by blast
  have t: "\<forall>sel \<in> set (row_texts long_haul_table long_haul_row).
             find_factor sel (the (map_of default_factors ''transport'')) = None"
    by code_simp
  have r: "map_of (the (map_of default_factors ''transport'')) ''Car (Petrol/Gasoline)'' = Some 0.19"
      "find_factor ''Car (Petrol/Gasoline)'' (the (map_of default_factors ''transport'')) = Some 0.19"
    by code_simp+
  have c6: "set (strings_of d) \<subseteq> set (row_texts long_haul_table long_haul_row)
      \<longrightarrow> branch_factor (the (map_of default_factors ''transport''))
            [''car'', ''bus'', ''train'', ''flight'', ''plane''] ''Car (Petrol/Gasoline)'' 0.19 d
            = 0.19"
    using branch_factor_texts[OF _ t ne r] by blast
  from c1 c2 c3 c4 c5 c6 show ?thesis by (intro conjI)
qed

theorem long_haul_flight_line_witness:
  "map_to_emission_categories plain_rt long_haul_table
       (detect_column_types no_ai plain_rt long_haul_table False)
     = Inr \<lparr> scope1 = [], scope2 = [], scope3 = [long_haul_item] \<rparr>
   \<and> item_emissions plain_rt default_factors long_haul_item = Inr 665
   \<and> branch_factor (the (map_of default_factors ''transport''))
        [''car'', ''bus'', ''train'', ''flight'', ''plane''] ''Car (Petrol/Gasoline)'' 0.19
        [(''category'', Str ''Flight'')] = 0.16
   \<and> branch_factor (the (map_of default_factors ''transport''))
        [''car'', ''bus'', ''train'', ''flight'', ''plane''] ''Car (Petrol/Gasoline)'' 0.19
        [(''category'', Str ''Business Flight (Long-haul International)'')] = 0.19
   \<and> branch_factor (the (map_of default_factors ''transport''))
        [''car'', ''bus'', ''train'', ''flight'', ''plane''] ''Car (Petrol/Gasoline)'' 0.19
        (data long_haul_item) = 0.19"
proof -
  have m: "map_to_emission_categories plain_rt long_haul_table
       (detect_column_types no_ai plain_rt long_haul_table False)
     = Inr \<lparr> scope1 = [], scope2 = [], scope3 = [long_haul_item] \<rparr>"
    by code_simp
  have tab: "the (map_of default_factors ''transport'')
      = [(''Car (Petrol/Gasoline)'', 0.19), (''Car (Diesel)'', 0.17), (''Car (Hybrid)'', 0.11),
         (''Car (Electric)'', 0.05), (''Bus'', 0.10), (''Train'', 0.04)]
        @ (''Flight (Short-haul)'', 0.16)
        # [(''Flight (Medium-haul)'', 0.14), (''Flight (Long-haul)'', 0.15)]"
    by (simp add: default_factors_def)
  have h6: "set (strings_of (data long_haul_item)) \<subseteq> set (row_texts long_haul_table long_haul_row)"
    by code_simp
  note t6 = long_haul_flight_line[where d = "data long_haul_item",
      THEN conjunct2, THEN conjunct2, THEN conjunct2, THEN conjunct2, THEN conjunct2]
  from t6 h6 have w6: "branch_factor (the (map_of default_factors ''transport''))
        [''car'', ''bus'', ''train'', ''flight'', ''plane''] ''Car (Petrol/Gasoline)'' 0.19
        (data long_haul_item) = 0.19"
    by (rule mp)
  have h2: "item_type long_haul_item = ''transport''
      \<and> map_of (data long_haul_item) ''amount'' = Some (Num 3500)
      \<and> py_float plain_rt (Num 3500) = Inr 3500
      \<and> map_of default_factors ''transport'' = Some (the (map_of default_factors ''transport''))"
    by code_simp
  note t2 = long_haul_flight_line[where it = long_haul_item and v = "Num 3500" and rt = plain_rt
      and a = 3500 and ef = default_factors and table = "the (map_of default_factors ''transport'')",
      THEN conjunct2, THEN conjunct1]
  from t2 h2 have "item_emissions plain_rt default_factors long_haul_item
      = Inr (3500 * branch_factor (the (map_of default_factors ''transport''))
                [''car'', ''bus'', ''train'', ''flight'', ''plane''] ''Car (Petrol/Gasoline)'' 0.19
                (data long_haul_item))"
    by (rule mp)
  then have w2: "item_emissions plain_rt default_factors long_haul_item = Inr 665"
    unfolding w6 by simp
  have h3: "find_type [''car'', ''bus'', ''train'', ''flight'', ''plane'']
        [(''category'', Str ''Flight'')] = Some ''Flight''
      \<and> (\<forall>(n, x) \<in> set [(''Car (Petrol/Gasoline)'', 0.19 :: real), (''Car (Diesel)'', 0.17),
             (''Car (Hybrid)'', 0.11), (''Car (Electric)'', 0.05), (''Bus'', 0.10), (''Train'', 0.04)].
            \<not> contains (lower ''Flight'') (lower n))
      \<and> contains (lower ''Flight'') (lower ''Flight (Short-haul)'')"
    by code_simp
  note t3 = long_haul_flight_line[where d = "[(''category'', Str ''Flight'')]" and sel = "''Flight''"
      and pre = "[(''Car (Petrol/Gasoline)'', 0.19), (''Car (Diesel)'', 0.17), (''Car (Hybrid)'', 0.11),
         (''Car (Electric)'', 0.05), (''Bus'', 0.10), (''Train'', 0.04)]"
      and nm = "''Flight (Short-haul)''" and f = "0.16"
      and post = "[(''Flight (Medium-haul)'', 0.14), (''Flight (Long-haul)'', 0.15)]",
      THEN conjunct2, THEN conjunct2, THEN conjunct1]
  from t3 h3 have w3: "branch_factor (the (map_of default_factors ''transport''))
        [''car'', ''bus'', ''train'', ''flight'', ''plane''] ''Car (Petrol/Gasoline)'' 0.19
        [(''category'', Str ''Flight'')] = 0.16"
    unfolding tab by (rule mp)
  have h4: "find_type [''car'', ''bus'', ''train'', ''flight'', ''plane'']
        [(''category'', Str ''Business Flight (Long-haul International)'')]
        = Some ''Business Flight (Long-haul International)''
      \<and> (\<forall>(n, x) \<in> set (the (map_of default_factors ''transport'')).
            \<not> contains (lower ''Business Flight (Long-haul International)'') (lower n))"
    by code_simp
  have v4: "map_of (the (map_of default_factors ''transport'')) ''Car (Petrol/Gasoline)'' = Some 0.19"
    by code_simp
  note t4 = long_haul_flight_line[
      where d = "[(''category'', Str ''Business Flight (Long-haul International)'')]"
      and sel = "''Business Flight (Long-haul International)''"
      and table = "the (map_of default_factors ''transport'')",
      THEN conjunct2, THEN conjunct2, THEN conjunct2, THEN conjunct1]
  from t4 h4 have "branch_factor (the (map_of default_factors ''transport''))
        [''car'', ''bus'', ''train'', ''flight'', ''plane''] ''Car (Petrol/Gasoline)'' 0.19
        [(''category'', Str ''Business Flight (Long-haul International)'')]
      = (case map_of (the (map_of default_factors ''transport'')) ''Car (Petrol/Gasoline)'' of
           Some f \<Rightarrow> f | None \<Rightarrow> 0.19)"
    by (rule mp)
  then have w4: "branch_factor (the (map_of default_factors ''transport''))
        [''car'', ''bus'', ''train'', ''flight'', ''plane''] ''Car (Petrol/Gasoline)'' 0.19
        [(''category'', Str ''Business Flight (Long-haul International)'')] = 0.19"
    unfolding v4 by simp
  have h5: "find_type [''car'', ''bus'', ''train'', ''flight'', ''plane''] (data long_haul_item) = None"
    by code_simp
  have v5: "find_factor ''Car (Petrol/Gasoline)'' (the (map_of default_factors ''transport''))
      = Some 0.19"
    by code_simp
  note t5 = long_haul_flight_line[where d = "data long_haul_item"
      and table = "the (map_of default_factors ''transport'')",
      THEN conjunct2, THEN conjunct2, THEN conjunct2, THEN conjunct2, THEN conjunct1]
  from t5 h5 have "branch_factor (the (map_of default_factors ''transport''))
        [''car'', ''bus'', ''train'', ''flight'', ''plane''] ''Car (Petrol/Gasoline)'' 0.19
        (data long_haul_item)
      = (case find_factor ''Car (Petrol/Gasoline)'' (the (map_of default_factors ''transport'')) of
           Some f \<Rightarrow> f
         | None \<Rightarrow> (case map_of (the (map_of default_factors ''transport''))
                          ''Car (Petrol/Gasoline)'' of Some f \<Rightarrow> f | None \<Rightarrow> 0.19))"
    by (rule mp)
  then have w5: "branch_factor (the (map_of default_factors ''transport''))
        [''car'', ''bus'', ''train'', ''flight'', ''plane''] ''Car (Petrol/Gasoline)'' 0.19
        (data long_haul_item) = 0.19"
    unfolding v5 by simp
  from m w2 w3 w4 w5 show ?thesis by (intro conjI)
qed

text \<open>
  The claim as the specification words it fails: the emissions of the line are 665, not
  the 525 that the factor of \<open>Flight (Long-haul)\<close> would give.
\<close>

theorem long_haul_flight_counterexample:
  "map_sum id (map emissions \<circ> line_items) (smart_import plain_rt long_haul_table) = Inr [665]
   \<and> map_sum id (map emissions \<circ> line_items) (smart_import plain_rt long_haul_table) \<noteq> Inr [525]
   \<and> map_of (the (map_of default_factors ''transport'')) ''Flight (Long-haul)'' = Some 0.15"
  by code_simp

section \<open>Rows with a zero amount\<close>

lemma branch_emissions_zero:
  "map_of d ''amount'' = Some v \<Longrightarrow> py_float rt v = Inr 0 \<Longrightarrow> map_of ef kind = Some table \<Longrightarrow>
   branch_emissions rt ef kind kws default_name default_value divisor d = Inr 0"
  unfolding branch_emissions_def by simp

lemma item_emissions_zero:
  assumes v: "map_of (data it) ''amount'' = Some v" "py_float rt v = Inr 0"
    and t: "\<forall>kind \<in> set emission_kinds. map_of ef kind \<noteq> None"
  shows "item_emissions rt ef it = Inr 0"
proof -
  from t obtain t1 t2 t3 t4 t5 t6 where
    "map_of ef ''fuel'' = Some t1" "map_of ef ''electricity'' = Some t2"
    "map_of ef ''transport'' = Some t3" "map_of ef ''waste'' = Some t4"
    "map_of ef ''water'' = Some t5" "map_of ef ''refrigerant'' = Some t6"
    unfolding emission_kinds_def by auto
  then show ?thesis
    unfolding item_emissions_def Let_def using v
    by (simp add: branch_emissions_zero)
qed

lemma map_row_resolved:
  assumes d: "distinct (columns df)"
    and a: "extract_amount row (columns_of_category df cms ''amount'') = Some x"
    and r: "resolve_type_scope rt df cms row = (Some k, Some n)" and n: "n \<in> {1, 2, 3}"
  shows "map_row rt df cms row
    = Inr (Some (n, make_item df cms row k x
                      (extract_unit rt row (columns_of_category df cms ''unit''))
                      (extract_category rt row (columns_of_category df cms ''category''))))"
proof -
  have k: "k \<in> set emission_kinds"
    using resolve_type_scope_kind[of rt df cms row k] r by simp
  have c: "Some x \<noteq> None \<and> truthy_str (Some k) \<and> truthy_int (Some n)"
    using kind_truthy[OF k] n by auto
  have c2: "the (Some n) \<in> {1, 2, 3}" using n by simp
  show ?thesis
    unfolding map_row_def Let_def r a prod.case if_not_P[OF row_raises_distinct[OF d]]
      if_P[OF c] if_not_P[OF collect_raises_distinct[OF d]] if_P[OF c2] by simp
qed

lemma kind_total_add:
  "kind_total (add_to_scope t e sr) kind = (if kind = t then kind_total sr t + e else kind_total sr kind)"
  unfolding kind_total_def add_to_scope_def
  by (simp add: update_conv' split: option.splits)

lemma same_totals_refl: "same_totals r r"
  by (simp add: same_totals_def)

lemma same_totals_trans: "same_totals a b \<Longrightarrow> same_totals b c \<Longrightarrow> same_totals a c"
  by (simp add: same_totals_def)

lemma same_totals_record_item:
  "same_totals a b \<Longrightarrow> same_totals (record_item key it e a) (record_item key it e b)"
  unfolding same_totals_def record_item_def get_scope_def set_scope_def
  by (simp add: kind_total_add)

lemma same_totals_record_zero: "same_totals (record_item key it 0 res) res"
  unfolding same_totals_def record_item_def get_scope_def set_scope_def
  by (simp add: kind_total_add)

lemma line_items_record_line:
  "line_items (record_item key it e res) = line_items res @ [line_of key it e]"
  unfolding record_item_def set_scope_def line_of_def by simp

lemma process_items_append:
  "process_items rt ef key (xs @ ys) res =
     (case process_items rt ef key xs res of
        Inl e \<Rightarrow> Inl e
      | Inr r \<Rightarrow> process_items rt ef key ys r)"
  by (induction xs arbitrary: res) (simp_all split: sum.splits)

lemma process_items_sim:
  "same_totals a b \<Longrightarrow> process_items rt ef key items b = Inr rb \<Longrightarrow>
   \<exists>ra. process_items rt ef key items a = Inr ra \<and> same_totals ra rb
      \<and> (\<exists>ls. line_items ra = line_items a @ ls \<and> line_items rb = line_items b @ ls)"
proof (induction items arbitrary: a b)
  case Nil
  then show ?case by simp
next
  case (Cons it items)
  from Cons.prems(2) obtain e where e: "item_emissions rt ef it = Inr e"
    and p: "process_items rt ef key items (record_item key it e b) = Inr rb"
    by (auto split: sum.splits)
  from Cons.IH[OF same_totals_record_item[OF Cons.prems(1)] p]
  obtain ra ls where ra: "process_items rt ef key items (record_item key it e a) = Inr ra"
      "same_totals ra rb"
      "line_items ra = line_items (record_item key it e a) @ ls"
      "line_items rb = line_items (record_item key it e b) @ ls"
    by blast
  from ra e show ?case
    by (simp add: line_items_record_line)
qed

lemma process_items_zero_item:
  assumes z: "item_emissions rt ef it = Inr 0"
    and p: "process_items rt ef key (xs @ ys) res = Inr r'"
  shows "\<exists>r. process_items rt ef key (xs @ it # ys) res = Inr r \<and> same_totals r r'
      \<and> (\<exists>ls1 ls2. length ls1 = length xs
            \<and> line_items r' = line_items res @ ls1 @ ls2
            \<and> line_items r = line_items res @ ls1 @ line_of key it 0 # ls2)"
proof -
  from p obtain r1 where r1: "process_items rt ef key xs res = Inr r1"
    and p2: "process_items rt ef key ys r1 = Inr r'"
    unfolding process_items_append by (auto split: sum.splits)
  from process_items_sim[OF same_totals_refl r1]
  obtain ls1 where ls1: "line_items r1 = line_items res @ ls1" by auto
  have len: "length (line_items r1) = length (line_items res) + length xs"
    using r1
  proof (induction xs arbitrary: res)
    case Nil
    then show ?case by simp
  next
    case (Cons x xs)
    then show ?case by (auto split: sum.splits simp: line_items_record_line)
  qed
  with ls1 have l1: "length ls1 = length xs" by simp
  from process_items_sim[OF same_totals_record_zero p2, of key it]
  obtain r ls2 where r: "process_items rt ef key ys (record_item key it 0 r1) = Inr r"
      "same_totals r r'"
      "line_items r = line_items (record_item key it 0 r1) @ ls2"
      "line_items r' = line_items r1 @ ls2"
    by blast
  have "process_items rt ef key (xs @ it # ys) res = Inr r"
    unfolding process_items_append using r1 z r(1) by simp
  moreover have "line_items r' = line_items res @ ls1 @ ls2" using r(4) ls1 by simp
  moreover have "line_items r = line_items res @ ls1 @ line_of key it 0 # ls2"
    using r(3) ls1 by (simp add: line_items_record_line)
  ultimately show ?thesis using r(2) l1 by blast
qed

lemma insert_line:
  "length ls1 = n \<Longrightarrow> ls1 @ l # ls2 = take n (ls1 @ ls2) @ l # drop n (ls1 @ ls2)"
  by simp

lemma process_items_length:
  "process_items rt ef key items res = Inr r \<Longrightarrow>
   length (line_items r) = length (line_items res) + length items"
proof (induction items arbitrary: res)
  case Nil
  then show ?case by simp
next
  case (Cons x xs)
  then show ?case by (auto split: sum.splits simp: line_items_record_line)
qed

lemma calculate_emissions_stages:
  "calculate_emissions rt \<lparr>scope1 = s1, scope2 = s2, scope3 = s3\<rparr> (Some ef) = Inr res \<longleftrightarrow>
   (\<exists>r1 r2. process_items rt ef ''scope1'' s1 empty_results = Inr r1
       \<and> process_items rt ef ''scope2'' s2 r1 = Inr r2
       \<and> process_items rt ef ''scope3'' s3 r2 = Inr res)"
  unfolding calculate_emissions_def Let_def by (auto split: sum.splits)

lemma calculate_zero_scope1:
  assumes z: "item_emissions rt ef it = Inr 0"
    and c: "calculate_emissions rt \<lparr>scope1 = xs @ ys, scope2 = s2, scope3 = s3\<rparr> (Some ef) = Inr res'"
  shows "\<exists>res. calculate_emissions rt \<lparr>scope1 = xs @ it # ys, scope2 = s2, scope3 = s3\<rparr> (Some ef)
           = Inr res
      \<and> same_totals res res'
      \<and> line_items res = take (length xs) (line_items res') @ line_of ''scope1'' it 0
                             # drop (length xs) (line_items res')"
proof -
  from c obtain r1' r2' where
    p1: "process_items rt ef ''scope1'' (xs @ ys) empty_results = Inr r1'"
    and p2: "process_items rt ef ''scope2'' s2 r1' = Inr r2'"
    and p3: "process_items rt ef ''scope3'' s3 r2' = Inr res'"
    unfolding calculate_emissions_stages by blast
  from process_items_zero_item[OF z p1]
  obtain r1 ls1 ls2 where r1: "process_items rt ef ''scope1'' (xs @ it # ys) empty_results = Inr r1"
      "same_totals r1 r1'" "length ls1 = length xs"
      "line_items r1' = ls1 @ ls2" "line_items r1 = ls1 @ line_of ''scope1'' it 0 # ls2"
    by (auto simp: empty_results_def)
  from process_items_sim[OF r1(2) p2]
  obtain r2 la where r2: "process_items rt ef ''scope2'' s2 r1 = Inr r2" "same_totals r2 r2'"
      "line_items r2 = line_items r1 @ la" "line_items r2' = line_items r1' @ la"
    by blast
  from process_items_sim[OF r2(2) p3]
  obtain res lb where r3: "process_items rt ef ''scope3'' s3 r2 = Inr res" "same_totals res res'"
      "line_items res = line_items r2 @ lb" "line_items res' = line_items r2' @ lb"
    by blast
  have a: "line_items res' = ls1 @ (ls2 @ la @ lb)" using r3(4) r2(4) r1(4) by simp
  have b: "line_items res = ls1 @ line_of ''scope1'' it 0 # (ls2 @ la @ lb)"
    using r3(3) r2(3) r1(5) by simp
  have "line_items res = take (length xs) (line_items res') @ line_of ''scope1'' it 0
                             # drop (length xs) (line_items res')"
    unfolding a b by (rule insert_line[OF r1(3)])
  moreover have "calculate_emissions rt \<lparr>scope1 = xs @ it # ys, scope2 = s2, scope3 = s3\<rparr> (Some ef)
           = Inr res"
    unfolding calculate_emissions_stages using r1(1) r2(1) r3(1) by blast
  ultimately show ?thesis using r3(2) by blast
qed

lemma calculate_zero_scope2:
  assumes z: "item_emissions rt ef it = Inr 0"
    and c: "calculate_emissions rt \<lparr>scope1 = s1, scope2 = xs @ ys, scope3 = s3\<rparr> (Some ef) = Inr res'"
  shows "\<exists>res. calculate_emissions rt \<lparr>scope1 = s1, scope2 = xs @ it # ys, scope3 = s3\<rparr> (Some ef)
           = Inr res
      \<and> same_totals res res'
      \<and> line_items res = take (length s1 + length xs) (line_items res') @ line_of ''scope2'' it 0
                             # drop (length s1 + length xs) (line_items res')"
proof -
  from c obtain r1 r2' where
    p1: "process_items rt ef ''scope1'' s1 empty_results = Inr r1"
    and p2: "process_items rt ef ''scope2'' (xs @ ys) r1 = Inr r2'"
    and p3: "process_items rt ef ''scope3'' s3 r2' = Inr res'"
    unfolding calculate_emissions_stages by blast
  have l1: "length (line_items r1) = length s1"
    using process_items_length[OF p1] by (simp add: empty_results_def)
  from process_items_zero_item[OF z p2]
  obtain r2 ls1 ls2 where r2: "process_items rt ef ''scope2'' (xs @ it # ys) r1 = Inr r2"
      "same_totals r2 r2'" "length ls1 = length xs"
      "line_items r2' = line_items r1 @ ls1 @ ls2"
      "line_items r2 = line_items r1 @ ls1 @ line_of ''scope2'' it 0 # ls2"
    by blast
  from process_items_sim[OF r2(2) p3]
  obtain res lb where r3: "process_items rt ef ''scope3'' s3 r2 = Inr res" "same_totals res res'"
      "line_items res = line_items r2 @ lb" "line_items res' = line_items r2' @ lb"
    by blast
  have n: "length (line_items r1 @ ls1) = length s1 + length xs" using l1 r2(3) by simp
  have a: "line_items res' = (line_items r1 @ ls1) @ (ls2 @ lb)" using r3(4) r2(4) by simp
  have b: "line_items res = (line_items r1 @ ls1) @ line_of ''scope2'' it 0 # (ls2 @ lb)"
    using r3(3) r2(5) by simp
  have "line_items res = take (length s1 + length xs) (line_items res') @ line_of ''scope2'' it 0
                             # drop (length s1 + length xs) (line_items res')"
    unfolding a b by (rule insert_line[OF n])
  moreover have "calculate_emissions rt \<lparr>scope1 = s1, scope2 = xs @ it # ys, scope3 = s3\<rparr> (Some ef)
           = Inr res"
    unfolding calculate_emissions_stages using p1 r2(1) r3(1) by blast
  ultimately show ?thesis using r3(2) by blast
qed

lemma calculate_zero_scope3:
  assumes z: "item_emissions rt ef it = Inr 0"
    and c: "calculate_emissions rt \<lparr>scope1 = s1, scope2 = s2, scope3 = xs @ ys\<rparr> (Some ef) = Inr res'"
  shows "\<exists>res. calculate_emissions rt \<lparr>scope1 = s1, scope2 = s2, scope3 = xs @ it # ys\<rparr> (Some ef)
           = Inr res
      \<and> same_totals res res'
      \<and> line_items res = take (length s1 + length s2 + length xs) (line_items res')
                             @ line_of ''scope3'' it 0
                             # drop (length s1 + length s2 + length xs) (line_items res')"
proof -
  from c obtain r1 r2 where
    p1: "process_items rt ef ''scope1'' s1 empty_results = Inr r1"
    and p2: "process_items rt ef ''scope2'' s2 r1 = Inr r2"
    and p3: "process_items rt ef ''scope3'' (xs @ ys) r2 = Inr res'"
    unfolding calculate_emissions_stages by blast
  have l2: "length (line_items r2) = length s1 + length s2"
    using process_items_length[OF p1] process_items_length[OF p2] by (simp add: empty_results_def)
  from process_items_zero_item[OF z p3]
  obtain res ls1 ls2 where r3: "process_items rt ef ''scope3'' (xs @ it # ys) r2 = Inr res"
      "same_totals res res'" "length ls1 = length xs"
      "line_items res' = line_items r2 @ ls1 @ ls2"
      "line_items res = line_items r2 @ ls1 @ line_of ''scope3'' it 0 # ls2"
    by blast
  have n: "length (line_items r2 @ ls1) = length s1 + length s2 + length xs" using l2 r3(3) by simp
  have a: "line_items res' = (line_items r2 @ ls1) @ ls2" using r3(4) by simp
  have b: "line_items res = (line_items r2 @ ls1) @ line_of ''scope3'' it 0 # ls2"
    using r3(5) by simp
  have "line_items res = take (length s1 + length s2 + length xs) (line_items res')
                             @ line_of ''scope3'' it 0
                             # drop (length s1 + length s2 + length xs) (line_items res')"
    unfolding a b by (rule insert_line[OF n])
  moreover have "calculate_emissions rt \<lparr>scope1 = s1, scope2 = s2, scope3 = xs @ it # ys\<rparr> (Some ef)
           = Inr res"
    unfolding calculate_emissions_stages using p1 p2 r3(1) by blast
  ultimately show ?thesis using r3(2) by blast
qed

text \<open>
  Claim C9, as the code has it. In a table whose column names are distinct, a row whose
  selected amount is 0 and whose kind and scope (1, 2 or 3) are resolved is appended like
  any other: zero is not a missing amount. When every filled amount cell of the appended
  row converts to 0 (as when only one is filled) and the catalog has a table for every
  kind, the calculator computes emissions 0 for the record. The item loop records a record
  of emissions 0 with that 0, which appends its line and changes no total. Whenever the
  calculator returns a report for scope lists without such a record, it returns one for
  the lists with the record put in at any place of a scope list: the new report has one
  more line, the line of that record with emissions 0, at the place of the record in the
  order of the lists, and the same grand total, scope totals and kind totals (a kind
  without an entry counting 0).
\<close>

theorem zero_amount_row_emitted:
  "(distinct (columns df)
      \<and> extract_amount row (columns_of_category df cms ''amount'') = Some 0
      \<and> resolve_type_scope rt df cms row = (Some k, Some n) \<and> n \<in> {1, 2, 3}
    \<longrightarrow> map_row rt df cms row
          = Inr (Some (n, make_item df cms row k 0
                            (extract_unit rt row (columns_of_category df cms ''unit''))
                            (extract_category rt row (columns_of_category df cms ''category'')))))
   \<and> (map_row rt df cms row = Inr (Some (n, it))
      \<and> (\<forall>(c, m) \<in> set cms. c \<in> set (columns df) \<and> category m = ''amount'' \<and> notna (row c)
            \<longrightarrow> py_float rt (row c) = Inr 0)
      \<and> extract_amount row (columns_of_category df cms ''amount'') = Some 0
      \<and> (\<forall>kind \<in> set emission_kinds. map_of ef kind \<noteq> None)
    \<longrightarrow> item_emissions rt ef it = Inr 0)
   \<and> (item_emissions rt ef it = Inr 0
    \<longrightarrow> process_items rt ef key (it # rest) res
          = process_items rt ef key rest (record_item key it 0 res))
   \<and> line_items (record_item key it 0 res) = line_items res @ [line_of key it 0]
   \<and> same_totals (record_item key it 0 res) res
   \<and> (item_emissions rt ef it = Inr 0
      \<and> calculate_emissions rt \<lparr>scope1 = xs @ ys, scope2 = sB, scope3 = sC\<rparr> (Some ef) = Inr res'
    \<longrightarrow> (\<exists>r. calculate_emissions rt \<lparr>scope1 = xs @ it # ys, scope2 = sB, scope3 = sC\<rparr> (Some ef)
               = Inr r
            \<and> same_totals r res'
            \<and> line_items r = take (length xs) (line_items res') @ line_of ''scope1'' it 0
                                # drop (length xs) (line_items res')))
   \<and> (item_emissions rt ef it = Inr 0
      \<and> calculate_emissions rt \<lparr>scope1 = sA, scope2 = xs @ ys, scope3 = sC\<rparr> (Some ef) = Inr res'
    \<longrightarrow> (\<exists>r. calculate_emissions rt \<lparr>scope1 = sA, scope2 = xs @ it # ys, scope3 = sC\<rparr> (Some ef)
               = Inr r
            \<and> same_totals r res'
            \<and> line_items r = take (length sA + length xs) (line_items res')
                                @ line_of ''scope2'' it 0
                                # drop (length sA + length xs) (line_items res')))
   \<and> (item_emissions rt ef it = Inr 0
      \<and> calculate_emissions rt \<lparr>scope1 = sA, scope2 = sB, scope3 = xs @ ys\<rparr> (Some ef) = Inr res'
    \<longrightarrow> (\<exists>r. calculate_emissions rt \<lparr>scope1 = sA, scope2 = sB, scope3 = xs @ it # ys\<rparr> (Some ef)
               = Inr r
            \<and> same_totals r res'
            \<and> line_items r = take (length sA + length sB + length xs) (line_items res')
                                @ line_of ''scope3'' it 0
                                # drop (length sA + length sB + length xs) (line_items res')))"
proof -
  have c1: "distinct (columns df)
      \<and> extract_amount row (columns_of_category df cms ''amount'') = Some 0
      \<and> resolve_type_scope rt df cms row = (Some k, Some n) \<and> n \<in> {1, 2, 3}
    \<longrightarrow> map_row rt df cms row
          = Inr (Some (n, make_item df cms row k 0
                            (extract_unit rt row (columns_of_category df cms ''unit''))
                            (extract_category rt row (columns_of_category df cms ''category''))))"
    using map_row_resolved[of df row cms 0 rt k n] by simp
  have c2: "map_row rt df cms row = Inr (Some (n, it))
      \<and> (\<forall>(c, m) \<in> set cms. c \<in> set (columns df) \<and> category m = ''amount'' \<and> notna (row c)
            \<longrightarrow> py_float rt (row c) = Inr 0)
      \<and> extract_amount row (columns_of_category df cms ''amount'') = Some 0
      \<and> (\<forall>kind \<in> set emission_kinds. map_of ef kind \<noteq> None)
    \<longrightarrow> item_emissions rt ef it = Inr 0"
  proof
    assume h: "map_row rt df cms row = Inr (Some (n, it))
      \<and> (\<forall>(c, m) \<in> set cms. c \<in> set (columns df) \<and> category m = ''amount'' \<and> notna (row c)
            \<longrightarrow> py_float rt (row c) = Inr 0)
      \<and> extract_amount row (columns_of_category df cms ''amount'') = Some 0
      \<and> (\<forall>kind \<in> set emission_kinds. map_of ef kind \<noteq> None)"
    then obtain k' a' where k': "k' \<in> set emission_kinds"
      and a': "extract_amount row (columns_of_category df cms ''amount'') = Some a'"
      and it: "it = make_item df cms row k' a'
                  (extract_unit rt row (columns_of_category df cms ''unit''))
                  (extract_category rt row (columns_of_category df cms ''category''))"
      using map_row_item[of rt df cms row n it] by blast
    from h a' have z: "a' = 0" by simp
    from h have w: "\<forall>(c, m) \<in> set cms. c \<in> set (columns df) \<and> category m = ''amount'' \<and> notna (row c)
            \<longrightarrow> py_float rt (row c) = Inr 0" by simp
    have "\<exists>v. map_of (data it) ''amount'' = Some v \<and> py_float rt v = Inr 0"
      unfolding it z by (rule make_item_amount[OF k' w]) simp
    then obtain v where "map_of (data it) ''amount'' = Some v" "py_float rt v = Inr 0" by blast
    moreover from h have "\<forall>kind \<in> set emission_kinds. map_of ef kind \<noteq> None" by simp
    ultimately show "item_emissions rt ef it = Inr 0" by (rule item_emissions_zero)
  qed
  have c3: "item_emissions rt ef it = Inr 0
    \<longrightarrow> process_items rt ef key (it # rest) res
          = process_items rt ef key rest (record_item key it 0 res)"
    by simp
  have c4: "line_items (record_item key it 0 res) = line_items res @ [line_of key it 0]"
    by (rule line_items_record_line)
  have c5: "same_totals (record_item key it 0 res) res"
    by (rule same_totals_record_zero)
  have c6: "item_emissions rt ef it = Inr 0
      \<and> calculate_emissions rt \<lparr>scope1 = xs @ ys, scope2 = sB, scope3 = sC\<rparr> (Some ef) = Inr res'
    \<longrightarrow> (\<exists>r. calculate_emissions rt \<lparr>scope1 = xs @ it # ys, scope2 = sB, scope3 = sC\<rparr> (Some ef)
               = Inr r
            \<and> same_totals r res'
            \<and> line_items r = take (length xs) (line_items res') @ line_of ''scope1'' it 0
                                # drop (length xs) (line_items res'))"
    using calculate_zero_scope1[of rt ef it xs ys sB sC res'] by blast
  have c7: "item_emissions rt ef it = Inr 0
      \<and> calculate_emissions rt \<lparr>scope1 = sA, scope2 = xs @ ys, scope3 = sC\<rparr> (Some ef) = Inr res'
    \<longrightarrow> (\<exists>r. calculate_emissions rt \<lparr>scope1 = sA, scope2 = xs @ it # ys, scope3 = sC\<rparr> (Some ef)
               = Inr r
            \<and> same_totals r res'
            \<and> line_items r = take (length sA + length xs) (line_items res')
                                @ line_of ''scope2'' it 0
                                # drop (length sA + length xs) (line_items res'))"
    using calculate_zero_scope2[of rt ef it sA xs ys sC res'] by blast
  have c8: "item_emissions rt ef it = Inr 0
      \<and> calculate_emissions rt \<lparr>scope1 = sA, scope2 = sB, scope3 = xs @ ys\<rparr> (Some ef) = Inr res'
    \<longrightarrow> (\<exists>r. calculate_emissions rt \<lparr>scope1 = sA, scope2 = sB, scope3 = xs @ it # ys\<rparr> (Some ef)
               = Inr r
            \<and> same_totals r res'
            \<and> line_items r = take (length sA + length sB + length xs) (line_items res')
                                @ line_of ''scope3'' it 0
                                # drop (length sA + length sB + length xs) (line_items res'))"
    using calculate_zero_scope3[of rt ef it sA sB xs ys res'] by blast
  from c1 c2 c3 c4 c5 c6 c7 c8 show ?thesis by (intro conjI)
qed

theorem zero_amount_row_emitted_witness:
  "map_row plain_rt two_amount_table two_amount_mappings zero_amount_row = Inr (Some (1, zero_item))
   \<and> item_emissions plain_rt default_factors zero_item = Inr 0
   \<and> process_items plain_rt default_factors ''scope1'' [zero_item] empty_results
       = Inr (record_item ''scope1'' zero_item 0 empty_results)
   \<and> calculate_emissions plain_rt \<lparr>scope1 = [seven_item], scope2 = [], scope3 = []\<rparr>
        (Some default_factors) = Inr seven_report
   \<and> map emissions (line_items seven_report) = [18.76]
   \<and> (\<exists>r. calculate_emissions plain_rt
              \<lparr>scope1 = [seven_item] @ zero_item # [], scope2 = [], scope3 = []\<rparr>
              (Some default_factors) = Inr r
          \<and> same_totals r seven_report
          \<and> line_items r = take (length [seven_item]) (line_items seven_report)
                @ line_of ''scope1'' zero_item 0
                # drop (length [seven_item]) (line_items seven_report))
   \<and> (\<exists>r. calculate_emissions plain_rt
              \<lparr>scope1 = [seven_item], scope2 = [] @ zero_item # [], scope3 = []\<rparr>
              (Some default_factors) = Inr r
          \<and> same_totals r seven_report
          \<and> line_items r = take (length [seven_item] + length ([] :: item list))
                  (line_items seven_report)
                @ line_of ''scope2'' zero_item 0
                # drop (length [seven_item] + length ([] :: item list)) (line_items seven_report))
   \<and> (\<exists>r. calculate_emissions plain_rt
              \<lparr>scope1 = [seven_item], scope2 = [], scope3 = [] @ zero_item # []\<rparr>
              (Some default_factors) = Inr r
          \<and> same_totals r seven_report
          \<and> line_items r = take (length [seven_item] + length ([] :: item list)
                    + length ([] :: item list)) (line_items seven_report)
                @ line_of ''scope3'' zero_item 0
                # drop (length [seven_item] + length ([] :: item list)
                    + length ([] :: item list)) (line_items seven_report))"
proof -
  have h0: "distinct (columns two_amount_table)"
    by (simp add: two_amount_table_def table_of_def)
  have h1: "extract_amount zero_amount_row
        (columns_of_category two_amount_table two_amount_mappings ''amount'') = Some 0
      \<and> resolve_type_scope plain_rt two_amount_table two_amount_mappings zero_amount_row
          = (Some ''fuel'', Some 1) \<and> (1::int) \<in> {1, 2, 3}"
    by code_simp
  have u: "extract_unit plain_rt zero_amount_row
        (columns_of_category two_amount_table two_amount_mappings ''unit'') = None"
    "extract_category plain_rt zero_amount_row
        (columns_of_category two_amount_table two_amount_mappings ''category'') = None"
    by code_simp+
  note t1 = zero_amount_row_emitted[where rt = plain_rt and df = two_amount_table
      and cms = two_amount_mappings and row = zero_amount_row and k = "''fuel''" and n = 1,
      THEN conjunct1]
  from t1 conjI[OF h0 h1]
  have "map_row plain_rt two_amount_table two_amount_mappings zero_amount_row
     = Inr (Some (1, make_item two_amount_table two_amount_mappings zero_amount_row ''fuel'' 0
                (extract_unit plain_rt zero_amount_row
                   (columns_of_category two_amount_table two_amount_mappings ''unit''))
                (extract_category plain_rt zero_amount_row
                   (columns_of_category two_amount_table two_amount_mappings ''category''))))"
    by (rule mp)
  then have w1: "map_row plain_rt two_amount_table two_amount_mappings zero_amount_row
     = Inr (Some (1, zero_item))"
    unfolding u zero_item_def .
  have h2: "\<forall>(c, m) \<in> set two_amount_mappings. c \<in> set (columns two_amount_table)
              \<and> category m = ''amount'' \<and> notna (zero_amount_row c)
              \<longrightarrow> py_float plain_rt (zero_amount_row c) = Inr 0"
    by (simp add: two_amount_mappings_def make_mapping_def zero_amount_row_def empty_row_def
        notna_def)
  have h3: "\<forall>kind \<in> set emission_kinds. map_of default_factors kind \<noteq> None"
    by code_simp
  note t2 = zero_amount_row_emitted[where rt = plain_rt and df = two_amount_table
      and cms = two_amount_mappings and row = zero_amount_row and n = 1 and ef = default_factors
      and it = zero_item, THEN conjunct2, THEN conjunct1]
  from h1 have h1a: "extract_amount zero_amount_row
        (columns_of_category two_amount_table two_amount_mappings ''amount'') = Some 0"
    by (rule conjunct1)
  from t2 conjI[OF w1 conjI[OF h2 conjI[OF h1a h3]]]
  have w2: "item_emissions plain_rt default_factors zero_item = Inr 0"
    by (rule mp)
  note t3 = zero_amount_row_emitted[where rt = plain_rt and ef = default_factors
      and it = zero_item and key = "''scope1''" and rest = "[]" and res = empty_results,
      THEN conjunct2, THEN conjunct2, THEN conjunct1]
  from t3 w2 have "process_items plain_rt default_factors ''scope1'' [zero_item] empty_results
       = process_items plain_rt default_factors ''scope1'' []
           (record_item ''scope1'' zero_item 0 empty_results)"
    by (rule mp)
  then have w3: "process_items plain_rt default_factors ''scope1'' [zero_item] empty_results
       = Inr (record_item ''scope1'' zero_item 0 empty_results)"
    by simp
  have h4: "calculate_emissions plain_rt \<lparr>scope1 = [seven_item], scope2 = [], scope3 = []\<rparr>
        (Some default_factors) = Inr seven_report"
    by code_simp
  have v4: "map emissions (line_items seven_report) = [18.76]"
    by code_simp
  have h6: "calculate_emissions plain_rt \<lparr>scope1 = [seven_item] @ [], scope2 = [], scope3 = []\<rparr>
        (Some default_factors) = Inr seven_report"
    using h4 by simp
  note t6 = zero_amount_row_emitted[where rt = plain_rt and ef = default_factors
      and it = zero_item and xs = "[seven_item]" and ys = "[]" and sB = "[]" and sC = "[]"
      and res' = seven_report,
      THEN conjunct2, THEN conjunct2, THEN conjunct2, THEN conjunct2, THEN conjunct2,
      THEN conjunct1]
  from t6 conjI[OF w2 h6]
  have w6: "\<exists>r. calculate_emissions plain_rt
              \<lparr>scope1 = [seven_item] @ zero_item # [], scope2 = [], scope3 = []\<rparr>
              (Some default_factors) = Inr r
          \<and> same_totals r seven_report
          \<and> line_items r = take (length [seven_item]) (line_items seven_report)
                @ line_of ''scope1'' zero_item 0
                # drop (length [seven_item]) (line_items seven_report)"
    by (rule mp)
  have h7: "calculate_emissions plain_rt \<lparr>scope1 = [seven_item], scope2 = [] @ [], scope3 = []\<rparr>
        (Some default_factors) = Inr seven_report"
    using h4 by simp
  note t7 = zero_amount_row_emitted[where rt = plain_rt and ef = default_factors
      and it = zero_item and xs = "[]" and ys = "[]" and sA = "[seven_item]" and sC = "[]"
      and res' = seven_report,
      THEN conjunct2, THEN conjunct2, THEN conjunct2, THEN conjunct2, THEN conjunct2,
      THEN conjunct2, THEN conjunct1]
  from t7 conjI[OF w2 h7]
  have w7: "\<exists>r. calculate_emissions plain_rt
              \<lparr>scope1 = [seven_item], scope2 = [] @ zero_item # [], scope3 = []\<rparr>
              (Some default_factors) = Inr r
          \<and> same_totals r seven_report
          \<and> line_items r = take (length [seven_item] + length ([] :: item list))
                  (line_items seven_report)
                @ line_of ''scope2'' zero_item 0
                # drop (length [seven_item] + length ([] :: item list)) (line_items seven_report)"
    by (rule mp)
  have h8: "calculate_emissions plain_rt \<lparr>scope1 = [seven_item], scope2 = [], scope3 = [] @ []\<rparr>
        (Some default_factors) = Inr seven_report"
    using h4 by simp
  note t8 = zero_amount_row_emitted[where rt = plain_rt and ef = default_factors
      and it = zero_item and xs = "[]" and ys = "[]" and sA = "[seven_item]" and sB = "[]"
      and res' = seven_report,
      THEN conjunct2, THEN conjunct2, THEN conjunct2, THEN conjunct2, THEN conjunct2,
      THEN conjunct2, THEN conjunct2]
  from t8 conjI[OF w2 h8]
  have w8: "\<exists>r. calculate_emissions plain_rt
              \<lparr>scope1 = [seven_item], scope2 = [], scope3 = [] @ zero_item # []\<rparr>
              (Some default_factors) = Inr r
          \<and> same_totals r seven_report
          \<and> line_items r = take (length [seven_item] + length ([] :: item list)
                    + length ([] :: item list)) (line_items seven_report)
                @ line_of ''scope3'' zero_item 0
                # drop (length [seven_item] + length ([] :: item list)
                    + length ([] :: item list)) (line_items seven_report)"
    by (rule mp)
  from w1 w2 w3 h4 v4 w6 w7 w8 show ?thesis by (intro conjI)
qed

text \<open>
  The claim as the specification words it fails: a row with amount 0 and nothing that
  names a kind adds no record; and a row whose first amount cell is 0 and whose second
  amount cell is 5 yields a line with emissions 13.4.
\<close>

theorem zero_amount_counterexample:
  "extract_amount zero_notes_row
       (columns_of_category zero_notes_table zero_notes_mappings ''amount'') = Some 0
   \<and> map_row plain_rt zero_notes_table zero_notes_mappings zero_notes_row = Inr None
   \<and> extract_amount zero_then_five_row
       (columns_of_category zero_then_five_table two_amount_mappings ''amount'') = Some 0
   \<and> map_sum id (map emissions \<circ> line_items)
        (map_and_calculate plain_rt zero_then_five_table two_amount_mappings None) = Inr [13.4]"
  by code_simp

section \<open>The classifier: order of the mappings\<close>

lemma update_fresh_key:
  "k \<notin> fst ` set al \<Longrightarrow> AList.update k v al = al @ [(k, v)]"
  by (induction al) auto

lemma detect_columns_keys:
  "distinct cols \<Longrightarrow> set cols \<inter> fst ` set ct = {} \<Longrightarrow>
   map fst (detect_columns env rt df use_ai cols ct) = map fst ct @ cols"
proof (induction cols arbitrary: ct)
  case Nil
  then show ?case by simp
next
  case (Cons c cols)
  from Cons.prems have fresh: "c \<notin> fst ` set ct" by auto
  have u: "AList.update c (classify_column env rt df use_ai c) ct
             = ct @ [(c, classify_column env rt df use_ai c)]"
    by (rule update_fresh_key[OF fresh])
  from Cons.prems have d: "distinct cols"
    and i: "set cols \<inter> fst ` set (ct @ [(c, classify_column env rt df use_ai c)]) = {}"
    by auto
  from Cons.IH[OF d i] show ?case by (simp add: u)
qed

text \<open>
  The mappings the classifier returns list the columns in the order of the table, when the
  column names are distinct.
\<close>

lemma detect_column_types_order:
  "distinct (columns df) \<Longrightarrow> map fst (detect_column_types env rt df use_ai) = columns df"
  unfolding detect_column_types_def using detect_columns_keys[of "columns df" "[]"] by simp

section \<open>The classifier: unit hints\<close>

lemma detect_columns_map_of:
  "map_of (detect_columns env rt df use_ai cols ct) c
     = (if c \<in> set cols then Some (classify_column env rt df use_ai c) else map_of ct c)"
  by (induction cols arbitrary: ct) (auto simp: update_conv')

lemma detect_column_types_map_of:
  "column \<in> set (columns df) \<Longrightarrow>
   map_of (detect_column_types env rt df use_ai) column
     = Some (classify_column env rt df use_ai column)"
  unfolding detect_column_types_def by (simp add: detect_columns_map_of)

lemma any_in_mem: "k \<in> set kws \<Longrightarrow> contains k s \<Longrightarrow> any_in kws s"
  unfolding any_in_def list_ex_iff by blast

lemma match_patterns_append:
  "match_patterns (ps @ qs) s
     = (case match_patterns ps s of Some c \<Rightarrow> Some c | None \<Rightarrow> match_patterns qs s)"
  by (induction ps) auto

lemma match_patterns_hit:
  "(cat, pat) \<in> set ps \<Longrightarrow> any_in pat s \<Longrightarrow> \<exists>c \<in> fst ` set ps. match_patterns ps s = Some c"
proof (induction ps)
  case Nil
  then show ?case by simp
next
  case (Cons p ps)
  obtain c0 p0 where p: "p = (c0, p0)" by (cases p)
  show ?case
  proof (cases "any_in p0 s")
    case True
    then show ?thesis unfolding p by simp
  next
    case False
    with Cons.prems p have "(cat, pat) \<in> set ps" by auto
    from Cons.IH[OF this Cons.prems(2)] False show ?thesis unfolding p by auto
  qed
qed

lemma kind_token_claimed:
  assumes "any_in [''kwh'', ''mwh'', ''liter'', ''gallon'', ''km'', ''mile'', ''m3''] s"
  shows "\<exists>c \<in> set [''fuel'', ''electricity'', ''transport'', ''waste'', ''water''].
           match_patterns patterns s = Some c"
proof -
  have sp: "patterns = take 5 patterns @ drop 5 patterns" by simp
  have cover: "\<forall>k \<in> set [''kwh'', ''mwh'', ''liter'', ''gallon'', ''km'', ''mile'', ''m3''].
                 \<exists>(cat, pat) \<in> set (take 5 patterns). k \<in> set pat"
    by code_simp
  have kinds: "\<forall>(cat, pat) \<in> set (take 5 patterns).
                 cat \<in> set [''fuel'', ''electricity'', ''transport'', ''waste'', ''water'']"
    by code_simp
  from assms obtain k where k: "k \<in> set [''kwh'', ''mwh'', ''liter'', ''gallon'', ''km'', ''mile'', ''m3'']"
    "contains k s"
    unfolding any_in_def list_ex_iff by blast
  from cover k(1) have "\<exists>(cat, pat) \<in> set (take 5 patterns). k \<in> set pat" by (rule bspec)
  then obtain cat pat where cp: "(cat, pat) \<in> set (take 5 patterns)" "k \<in> set pat" by auto
  from match_patterns_hit[OF cp(1) any_in_mem[OF cp(2) k(2)]] obtain c where
    c: "c \<in> fst ` set (take 5 patterns)" "match_patterns (take 5 patterns) s = Some c" by blast
  from c(1) obtain pat' where "(c, pat') \<in> set (take 5 patterns)" by auto
  with kinds have ck: "c \<in> set [''fuel'', ''electricity'', ''transport'', ''waste'', ''water'']"
    by (auto simp del: set_simps)
  have "match_patterns patterns s = Some c"
    by (subst sp) (simp add: match_patterns_append c(2) del: append_take_drop_id)
  with ck show ?thesis by (auto simp del: set_simps)
qed

lemma classify_column_by_name:
  "match_patterns patterns (lower column) = Some cat \<Longrightarrow>
   unit (classify_column env rt df use_ai column)
     = (if cat \<in> set [''amount'', ''unit''] then detect_unit rt (get_column df column) else None)"
  unfolding classify_column_def make_mapping_def by (simp del: set_simps)

lemma unit_from_name_kg:
  "\<not> any_in [''kwh'', ''kw-h'', ''kilowatt''] s \<Longrightarrow> \<not> any_in [''mwh'', ''mw-h'', ''megawatt''] s \<Longrightarrow>
   contains ''kg'' s \<Longrightarrow> unit_from_name s = Some ''kg''"
  unfolding unit_from_name_def
  using any_in_mem[of "''kg''" "[''kg'', ''kilo'', ''weight'']" s] by simp

text \<open>
  Claim C7, as the code has it. A column whose name contains \<open>kwh\<close>, \<open>mwh\<close>,
  \<open>liter\<close>, \<open>gallon\<close>, \<open>km\<close>, \<open>mile\<close> or \<open>m3\<close> matches the pattern of a kind
  first and carries no unit hint. A column whose first matching pattern is that of an
  amount or a unit takes its hint from \<open>detect_unit\<close>: for a numeric column with a
  non-null cell the hint is read off the name, by the first matching group of unit words,
  so that a name with \<open>kg\<close> and no word for kilowatt-hours or megawatt-hours gives
  \<open>kg\<close>; for a string column the hint is read off its first five cells, not its name;
  and an empty or all-null column has no hint.
\<close>

theorem unit_hint_of_column:
  "column \<in> set (columns df) \<longrightarrow>
   (let m = the (map_of (detect_column_types env rt df use_ai) column);
        col = get_column df column;
        by_name = match_patterns patterns (lower column)
    in (any_in [''kwh'', ''mwh'', ''liter'', ''gallon'', ''km'', ''mile'', ''m3''] (lower column)
          \<longrightarrow> unit m = None)
     \<and> (by_name = Some cat \<and> cat \<in> set [''amount'', ''unit''] \<and> dtypes df column = NumericT
          \<and> \<not> empty_or_all_na col
          \<longrightarrow> unit m = unit_from_name (lower column))
     \<and> (by_name = Some cat \<and> cat \<in> set [''amount'', ''unit''] \<and> dtypes df column = NumericT
          \<and> \<not> empty_or_all_na col \<and> contains ''kg'' (lower column)
          \<and> \<not> any_in [''kwh'', ''kw-h'', ''kilowatt''] (lower column)
          \<and> \<not> any_in [''mwh'', ''mw-h'', ''megawatt''] (lower column)
          \<longrightarrow> unit m = Some ''kg'')
     \<and> (by_name = Some cat \<and> cat \<in> set [''amount'', ''unit''] \<and> dtypes df column = StringT
          \<and> \<not> empty_or_all_na col
          \<longrightarrow> unit m = unit_from_values (take 5 (lower_strings rt col)))
     \<and> (by_name = Some cat \<and> empty_or_all_na col \<longrightarrow> unit m = None))"
proof
  assume c: "column \<in> set (columns df)"
  define m where "m = the (map_of (detect_column_types env rt df use_ai) column)"
  define col where "col = get_column df column"
  have m_eq: "m = classify_column env rt df use_ai column"
    unfolding m_def by (simp add: detect_column_types_map_of[OF c])
  have dt: "dtype_of col = dtypes df column" and nm: "name col = column"
    unfolding col_def get_column_def by simp_all
  have c1: "any_in [''kwh'', ''mwh'', ''liter'', ''gallon'', ''km'', ''mile'', ''m3''] (lower column)
          \<longrightarrow> unit m = None"
  proof
    assume "any_in [''kwh'', ''mwh'', ''liter'', ''gallon'', ''km'', ''mile'', ''m3''] (lower column)"
    from kind_token_claimed[OF this] obtain k where
      k: "k \<in> set [''fuel'', ''electricity'', ''transport'', ''waste'', ''water'']"
        "match_patterns patterns (lower column) = Some k" by blast
    from k(1) have "k \<notin> set [''amount'', ''unit'']" by auto
    with classify_column_by_name[OF k(2), of env rt df use_ai] show "unit m = None"
      unfolding m_eq by (simp del: set_simps)
  qed
  have c2: "match_patterns patterns (lower column) = Some cat \<and> cat \<in> set [''amount'', ''unit'']
          \<and> dtypes df column = NumericT \<and> \<not> empty_or_all_na col
          \<longrightarrow> unit m = unit_from_name (lower column)"
    unfolding m_eq using dt nm
    by (auto simp add: classify_column_by_name detect_unit_def col_def[symmetric] simp del: set_simps)
  have c3: "match_patterns patterns (lower column) = Some cat \<and> cat \<in> set [''amount'', ''unit'']
          \<and> dtypes df column = NumericT
          \<and> \<not> empty_or_all_na col \<and> contains ''kg'' (lower column)
          \<and> \<not> any_in [''kwh'', ''kw-h'', ''kilowatt''] (lower column)
          \<and> \<not> any_in [''mwh'', ''mw-h'', ''megawatt''] (lower column)
          \<longrightarrow> unit m = Some ''kg''"
    using c2 unit_from_name_kg[of "lower column"] by auto
  have c4: "match_patterns patterns (lower column) = Some cat \<and> cat \<in> set [''amount'', ''unit'']
          \<and> dtypes df column = StringT \<and> \<not> empty_or_all_na col
          \<longrightarrow> unit m = unit_from_values (take 5 (lower_strings rt col))"
    unfolding m_eq using dt nm
    by (auto simp add: classify_column_by_name detect_unit_def col_def[symmetric] simp del: set_simps)
  have c5: "match_patterns patterns (lower column) = Some cat \<and> empty_or_all_na col
          \<longrightarrow> unit m = None"
    unfolding m_eq
    by (auto simp add: classify_column_by_name detect_unit_def col_def[symmetric] simp del: set_simps)
  from c1 c2 c3 c4 c5
  show "let m = the (map_of (detect_column_types env rt df use_ai) column);
        col = get_column df column;
        by_name = match_patterns patterns (lower column)
    in (any_in [''kwh'', ''mwh'', ''liter'', ''gallon'', ''km'', ''mile'', ''m3''] (lower column)
          \<longrightarrow> unit m = None)
     \<and> (by_name = Some cat \<and> cat \<in> set [''amount'', ''unit''] \<and> dtypes df column = NumericT
          \<and> \<not> empty_or_all_na col
          \<longrightarrow> unit m = unit_from_name (lower column))
     \<and> (by_name = Some cat \<and> cat \<in> set [''amount'', ''unit''] \<and> dtypes df column = NumericT
          \<and> \<not> empty_or_all_na col \<and> contains ''kg'' (lower column)
          \<and> \<not> any_in [''kwh'', ''kw-h'', ''kilowatt''] (lower column)
          \<and> \<not> any_in [''mwh'', ''mw-h'', ''megawatt''] (lower column)
          \<longrightarrow> unit m = Some ''kg'')
     \<and> (by_name = Some cat \<and> cat \<in> set [''amount'', ''unit''] \<and> dtypes df column = StringT
          \<and> \<not> empty_or_all_na col
          \<longrightarrow> unit m = unit_from_values (take 5 (lower_strings rt col)))
     \<and> (by_name = Some cat \<and> empty_or_all_na col \<longrightarrow> unit m = None)"
    unfolding Let_def m_def[symmetric] col_def[symmetric] by (intro conjI)
qed

theorem unit_hint_of_column_witness:
  "unit (the (map_of (detect_column_types no_ai plain_rt kg_numeric_table False) ''kg'')) = Some ''kg''
   \<and> unit (the (map_of (detect_column_types no_ai plain_rt kwh_table False) ''kwh'')) = None
   \<and> unit (the (map_of (detect_column_types no_ai plain_rt kg_text_table False) ''kg'')) = None
   \<and> unit (the (map_of (detect_column_types no_ai plain_rt kg_empty_table False) ''kg'')) = None"
proof -
  have m1: "''kg'' \<in> set (columns kg_numeric_table)" by code_simp
  have h1: "match_patterns patterns (lower ''kg'') = Some ''unit''
      \<and> ''unit'' \<in> set [''amount'', ''unit''] \<and> dtypes kg_numeric_table ''kg'' = NumericT
      \<and> \<not> empty_or_all_na (get_column kg_numeric_table ''kg'') \<and> contains ''kg'' (lower ''kg'')
      \<and> \<not> any_in [''kwh'', ''kw-h'', ''kilowatt''] (lower ''kg'')
      \<and> \<not> any_in [''mwh'', ''mw-h'', ''megawatt''] (lower ''kg'')"
    by code_simp
  note t1 = unit_hint_of_column[where df = kg_numeric_table and column = "''kg''" and env = no_ai
      and rt = plain_rt and use_ai = False and cat = "''unit''", unfolded Let_def]
  from t1 m1 have "unit (the (map_of (detect_column_types no_ai plain_rt kg_numeric_table False) ''kg''))
      = Some ''kg''"
    using h1 by blast
  moreover
  have m2: "''kwh'' \<in> set (columns kwh_table)" by code_simp
  have h2: "any_in [''kwh'', ''mwh'', ''liter'', ''gallon'', ''km'', ''mile'', ''m3''] (lower ''kwh'')"
    by code_simp
  note t2 = unit_hint_of_column[where df = kwh_table and column = "''kwh''" and env = no_ai
      and rt = plain_rt and use_ai = False, unfolded Let_def]
  from t2 m2 have "unit (the (map_of (detect_column_types no_ai plain_rt kwh_table False) ''kwh''))
      = None"
    using h2 by blast
  moreover
  have m3: "''kg'' \<in> set (columns kg_text_table)" by code_simp
  have h3: "match_patterns patterns (lower ''kg'') = Some ''unit''
      \<and> ''unit'' \<in> set [''amount'', ''unit''] \<and> dtypes kg_text_table ''kg'' = StringT
      \<and> \<not> empty_or_all_na (get_column kg_text_table ''kg'')"
    by code_simp
  have v3: "unit_from_values (take 5 (lower_strings plain_rt (get_column kg_text_table ''kg''))) = None"
    by code_simp
  note t3 = unit_hint_of_column[where df = kg_text_table and column = "''kg''" and env = no_ai
      and rt = plain_rt and use_ai = False and cat = "''unit''", unfolded Let_def]
  from t3 m3 have "unit (the (map_of (detect_column_types no_ai plain_rt kg_text_table False) ''kg''))
      = unit_from_values (take 5 (lower_strings plain_rt (get_column kg_text_table ''kg'')))"
    using h3 by blast
  then have "unit (the (map_of (detect_column_types no_ai plain_rt kg_text_table False) ''kg'')) = None"
    unfolding v3 .
  moreover
  have m4: "''kg'' \<in> set (columns kg_empty_table)" by code_simp
  have h4: "match_patterns patterns (lower ''kg'') = Some ''unit''
      \<and> empty_or_all_na (get_column kg_empty_table ''kg'')"
    by code_simp
  note t4 = unit_hint_of_column[where df = kg_empty_table and column = "''kg''" and env = no_ai
      and rt = plain_rt and use_ai = False and cat = "''unit''", unfolded Let_def]
  from t4 m4 have "unit (the (map_of (detect_column_types no_ai plain_rt kg_empty_table False) ''kg''))
      = None"
    using h4 by blast
  ultimately show ?thesis by (intro conjI)
qed

text \<open>
  The claim as the specification words it fails: the name \<open>kg\<close> contains the token
  \<open>kg\<close>, and over text cells that name no unit the column gets no unit hint; the
  name \<open>kwh\<close> contains the token \<open>kwh\<close>, and the column is classified as
  electricity, without a unit hint.
\<close>

theorem unit_token_counterexample:
  "contains ''kg'' (lower ''kg'')
   \<and> map_of (detect_column_types no_ai plain_rt kg_text_table False) ''kg''
       = Some (make_mapping ''unit'' 0.8 None None)
   \<and> contains ''kwh'' (lower ''kwh'')
   \<and> map_of (detect_column_types no_ai plain_rt kwh_table False) ''kwh''
       = Some (make_mapping ''electricity'' 0.8 (Some 2) None)"
  by code_simp

section \<open>The tabular reader: the temporary file\<close>

lemma temp_file_released_after_read:
  "write_ok file \<Longrightarrow> read_default file = Some df \<Longrightarrow>
   read_excel_file file tmp_path fs = (Some (clean_columns df), fs - {tmp_path})"
  by (simp add: read_excel_file_def finish_read_def)

text \<open>
  Claim C8 asks that the temporary file be gone whenever \<open>read_excel_file\<close> has
  returned. The code unlinks it only after a reading attempt has succeeded: when all three
  attempts raise, the handler at lines 95-97 returns \<open>None\<close> before the unlink of line
  100, and the file is still there.
\<close>

theorem temp_file_left_behind:
  "read_excel_file unreadable_upload ''/tmp/tmpk3x9.xlsx'' {}
     = (None, {''/tmp/tmpk3x9.xlsx''})"
  by (simp add: read_excel_file_def unreadable_upload_def)

end
